theory Spec2Isabelle
  imports Complex_Main
begin

section \<open>Values, requests and the webhook context\<close>

text \<open>
  The Vuetify JsonForms form trigger is a webhook handler of a workflow host. This theory
  embeds \<^verbatim>\<open>nodes/VuetifyJsonForms/utils.ts\<close> and the first
  \<^verbatim>\<open>VuetifyJsonFormsTrigger\<close> class of \<^verbatim>\<open>unnamed/part_000\<close> (the one with
  the event schema and \<^verbatim>\<open>isFormConnected\<close>).

  JavaScript values are a datatype; \<^verbatim>\<open>undefined\<close> is a value of its own where a
  property may hold it, and \<open>None\<close> where a TypeScript type says \<^verbatim>\<open>T | undefined\<close>.
  Strings are lists of 8-bit characters (code units up to 255).
\<close>

datatype jsval =
    JUndefined
  | JNull
  | JBool bool
  | JNum int
  | JStr string
  | JArr "jsval list"
  | JObj "(string \<times> jsval) list"

text \<open>
  \<^verbatim>\<open>o.k\<close> for a value \<open>o\<close> that is neither null nor undefined. The handler only reads the
  keys \<^verbatim>\<open>data\<close> and \<^verbatim>\<open>event\<close>, which no prototype defines, so a value that is
  not an object yields undefined.
\<close>

definition member :: "jsval \<Rightarrow> string \<Rightarrow> jsval" where
  "member v k =
     (case v of
        JObj kvs \<Rightarrow> (case map_of kvs k of Some x \<Rightarrow> x | None \<Rightarrow> JUndefined)
      | _ \<Rightarrow> JUndefined)"

text \<open>\<^verbatim>\<open>!s\<close> for a string that may be undefined: undefined and the empty string are falsy.\<close>

definition falsy :: "string option \<Rightarrow> bool" where
  "falsy s = (case s of None \<Rightarrow> True | Some t \<Rightarrow> t = [])"

record request =
  http_method :: string
  headers :: "string \<rightharpoonup> string"
  body :: string
  query :: "(string \<times> jsval) list option"

text \<open>A decrypted credential: its fields by name (\<^verbatim>\<open>ICredentialDataDecryptedObject\<close>).\<close>

type_synonym credential = "string \<rightharpoonup> string"

record respond_values =
  respondWith :: string
  formSubmittedText :: "string option"
  redirectUrl :: "string option"

text \<open>
  The options bag of the node (\<^verbatim>\<open>getNodeParameter("options", {})\<close>); each field is
  optional. \<open>text_option\<close> is the bag's own \<^verbatim>\<open>formSubmittedText\<close>. For
  \<^verbatim>\<open>respondWithOptions\<close>, \<open>None\<close> is an option that is not set, \<open>Some None\<close> is an
  option that is set and has no \<^verbatim>\<open>values\<close>, and \<open>Some (Some v)\<close> is an option with the
  values \<open>v\<close>.
\<close>

record options_bag =
  ignoreBots :: "bool option"
  respondWithOptions :: "respond_values option option"
  text_option :: "string option"
  useWorkflowTimezone :: "bool option"
  customCss :: "string option"
  customStyle :: "string option"
  vuetifyOptions :: "string option"
  readonly :: "bool option"
  validationMode :: "string option"
  eventJsonSchema :: "string option"

record node_parameters =
  authentication :: string
  jsonSchema :: "string option"
  uiSchema :: "string option"
  data :: "string option"
  config :: "string option"
  responseMode :: "string option"
  options :: options_bag

record node_info =
  name :: string
  typeVersion :: rat

record child_node =
  node_type :: string
  parameters :: "(string \<rightharpoonup> jsval) option"

text \<open>
  What the host hands to the handler (\<^verbatim>\<open>IWebhookFunctions\<close>): the node's parameters,
  the credentials by type name (\<open>None\<close> when \<^verbatim>\<open>getCredentials\<close> throws or yields
  undefined), the request, the node, the nodes connected downstream, the workflow's
  timezone, the execution mode, and the instant of the request in milliseconds.
\<close>

record webhook_functions =
  getNodeParameters :: node_parameters
  getCredentials :: "string \<rightharpoonup> credential"
  getRequestObject :: request
  getNode :: node_info
  childNodes :: "child_node list"
  getTimezone :: string
  getMode :: string
  now :: int

text \<open>\<^verbatim>\<open>getHeaderData()\<close> returns the headers of the request.\<close>

definition getHeaderData :: "webhook_functions \<Rightarrow> string \<rightharpoonup> string" where
  "getHeaderData ctx = headers (getRequestObject ctx)"

text \<open>
  \<^verbatim>\<open>getChildNodes(name, {includeNodeParameters})\<close>: the connected nodes, with their
  parameters only when asked for.
\<close>

definition getChildNodes :: "webhook_functions \<Rightarrow> bool \<Rightarrow> child_node list" where
  "getChildNodes ctx includeNodeParameters =
     (if includeNodeParameters then childNodes ctx
      else map (\<lambda>n. n\<lparr>parameters := None\<rparr>) (childNodes ctx))"

record ajv_result =
  valid :: bool
  errors :: "jsval list"
  validated :: jsval

text \<open>
  The third-party libraries the code calls, and the helper \<^verbatim>\<open>sanitizeCustomCss\<close> and
  the node-type constants it imports, are parameters of the model:
  \<^item> \<open>isbot\<close>: the bot test on the user-agent header;
  \<^item> \<open>basicAuth\<close>: the \<^verbatim>\<open>basic-auth\<close> parser, \<open>None\<close> when the request carries no
    parsable Basic authorization header, else the name and the password;
  \<^item> \<open>jwt_verify token key algorithm\<close>: \<open>Inl message\<close> when verification throws;
  \<^item> \<open>JSON_parse\<close>: \<open>None\<close> when it throws; \<open>JSON_stringify\<close>;
  \<^item> \<open>ajv_compile\<close>: the validator of the Ajv instance of lines 33-43 for a schema
    (\<open>None\<close> when compiling throws). One call returns whether the value is valid, the
    errors recorded, and the value as the call leaves it: the instance is configured with
    \<^verbatim>\<open>useDefaults: true\<close>, so validating fills defaults into the object it is given;
  \<^item> \<open>toISO millis zone\<close>: \<^verbatim>\<open>DateTime.now().setZone(zone).toISO()\<close> at the instant \<open>millis\<close>;
  \<^item> \<open>sanitizeCustomCss\<close>, \<open>FORM_NODE_TYPE\<close>, \<open>WAIT_NODE_TYPE\<close>.
\<close>

record libs =
  isbot :: "string option \<Rightarrow> bool"
  basicAuth :: "request \<Rightarrow> (string \<times> string) option"
  jwt_verify :: "string \<Rightarrow> string option \<Rightarrow> string option \<Rightarrow> string + jsval"
  JSON_parse :: "string \<Rightarrow> jsval option"
  JSON_stringify :: "jsval \<Rightarrow> string"
  ajv_compile :: "jsval \<Rightarrow> (jsval \<Rightarrow> ajv_result) option"
  toISO :: "int \<Rightarrow> string \<Rightarrow> jsval"
  sanitizeCustomCss :: "string option \<Rightarrow> string option"
  FORM_NODE_TYPE :: string
  WAIT_NODE_TYPE :: string

section \<open>utils.ts\<close>

subsection \<open>formatPrivateKey\<close>

text \<open>\<^verbatim>\<open>\s\<close> on code units up to 255: tab, line feed, vertical tab, form feed, carriage
  return, space and the no-break space.\<close>

definition is_space :: "char \<Rightarrow> bool" where
  "is_space c = (c = CHR 0x09 \<or> c = CHR 0x0A \<or> c = CHR 0x0B \<or> c = CHR 0x0C
     \<or> c = CHR 0x0D \<or> c = CHR 0x20 \<or> c = CHR 0xA0)"

text \<open>\<^verbatim>\<open>s.includes(sub)\<close>, which is what the unanchored literal patterns test.\<close>

fun includes_str :: "string \<Rightarrow> string \<Rightarrow> bool" where
  "includes_str sub [] = (sub = [])"
| "includes_str sub (c # cs) = (take (length sub) (c # cs) = sub \<or> includes_str sub cs)"

text \<open>
  \<^verbatim>\<open>s.split("-----")\<close>, reading one character at a time: \<open>acc\<close> is the piece read
  so far, reversed, and \<open>n\<close> counts the dashes at its end (at most four). The fifth dash
  in a row closes the piece before the run.
\<close>

fun split_dashes :: "nat \<Rightarrow> string \<Rightarrow> string \<Rightarrow> string list" where
  "split_dashes n acc [] = [rev acc]"
| "split_dashes n acc (c # cs) =
     (if c = CHR ''-'' then
        (if n = 4 then rev (drop 4 acc) # split_dashes 0 [] cs
         else split_dashes (Suc n) (c # acc) cs)
      else split_dashes 0 (c # acc) cs)"

text \<open>\<^verbatim>\<open>replace(/\\n/g, "\n")\<close>: a backslash followed by n becomes a line feed.\<close>

fun replace_escaped_newlines :: "string \<Rightarrow> string" where
  "replace_escaped_newlines [] = []"
| "replace_escaped_newlines [c] = [c]"
| "replace_escaped_newlines (c # d # rest) =
     (if c = CHR 0x5C \<and> d = CHR ''n'' then CHR 0x0A # replace_escaped_newlines rest
      else c # replace_escaped_newlines (d # rest))"

text \<open>\<^verbatim>\<open>replace(/\s+/g, "\n")\<close>: each run of white space becomes one line feed. The flag
  says that the previous character was white space.\<close>

fun replace_space_runs :: "bool \<Rightarrow> string \<Rightarrow> string" where
  "replace_space_runs prev [] = []"
| "replace_space_runs prev (c # cs) =
     (if is_space c then (if prev then replace_space_runs True cs
                          else CHR 0x0A # replace_space_runs True cs)
      else c # replace_space_runs False cs)"

text \<open>\<^verbatim>\<open>replace(/:\s+/g, ":")\<close>: white space right after a colon is dropped. The flag says
  that only white space has been read since the last colon.\<close>

fun strip_space_after_colon :: "bool \<Rightarrow> string \<Rightarrow> string" where
  "strip_space_after_colon after [] = []"
| "strip_space_after_colon after (c # cs) =
     (if after \<and> is_space c then strip_space_after_colon True cs
      else c # strip_space_after_colon (c = CHR '':'') cs)"

definition format_part :: "bool \<Rightarrow> string \<Rightarrow> string" where
  "format_part keyIsPublic part =
     (if (if keyIsPublic then includes_str ''PUBLIC KEY'' part
          else includes_str ''PRIVATE KEY'' part \<or> includes_str ''CERTIFICATE'' part)
      then ''-----'' @ part @ ''-----''
      else if includes_str ''Proc-Type'' part \<or> includes_str ''DEK-Info'' part
      then replace_space_runs False
             (replace_escaped_newlines (strip_space_after_colon False part))
      else replace_space_runs False (replace_escaped_newlines part))"

definition formatPrivateKey :: "string option \<Rightarrow> bool \<Rightarrow> string option" where
  "formatPrivateKey privateKey keyIsPublic =
     (case privateKey of
        None \<Rightarrow> None
      | Some k \<Rightarrow>
          if k = [] \<or> CHR 0x0A \<in> set k then Some k
          else Some (concat (map (format_part keyIsPublic)
                       (filter (\<lambda>item. item \<noteq> []) (split_dashes 0 [] k)))))"

subsection \<open>validateResponseModeConfiguration\<close>

text \<open>Errors the handler lets escape. A \<open>NodeOperationError\<close> carries its message.\<close>

datatype js_error =
    NodeOperationError string
  | SyntaxError
  | TypeError
  | SchemaCompileError

text \<open>The result is \<open>None\<close> when the function returns and the error when it throws.\<close>

definition validateResponseModeConfiguration :: "webhook_functions \<Rightarrow> js_error option" where
  \<open>validateResponseModeConfiguration ctx =
     (let responseMode =
            (case responseMode (getNodeParameters ctx) of None \<Rightarrow> ''onReceived'' | Some m \<Rightarrow> m);
          connectedNodes = getChildNodes ctx False;
          nodeVersion = typeVersion (getNode ctx);
          isRespondToWebhookConnected =
            list_ex (\<lambda>node. node_type node = ''n8n-nodes-base.respondToWebhook'') connectedNodes
      in if \<not> isRespondToWebhookConnected \<and> responseMode = ''responseNode''
         then Some (NodeOperationError ''No Respond to Webhook node found in the workflow'')
         else if isRespondToWebhookConnected \<and> responseMode \<noteq> ''responseNode''
                 \<and> nodeVersion \<le> 21 / 10
         then Some (NodeOperationError (name (getNode ctx) @ '' node not correctly configured''))
         else if isRespondToWebhookConnected \<and> nodeVersion > 21 / 10
         then Some (NodeOperationError
           ''The "Respond to Webhook" node is not supported in workflows initiated by the "n8n Form Trigger"'')
         else None)\<close>

subsection \<open>validateWebhookAuthentication\<close>

datatype auth_error = WebhookAuthorizationError nat "string option"

definition no_auth_data :: auth_error where
  "no_auth_data = WebhookAuthorizationError 500 (Some ''No authentication data defined on node!'')"

text \<open>\<^verbatim>\<open>s.toLowerCase()\<close> on code units up to 255.\<close>

definition lower_char :: "char \<Rightarrow> char" where
  "lower_char c =
     (let n = (of_char c :: nat)
      in if (65 \<le> n \<and> n \<le> 90) \<or> (192 \<le> n \<and> n \<le> 222 \<and> n \<noteq> 215)
         then char_of (n + 32) else c)"

definition toLowerCase :: "string \<Rightarrow> string" where
  "toLowerCase s = map lower_char s"

text \<open>\<^verbatim>\<open>s.split(" ")\<close> for a one-character separator, and \<^verbatim>\<open>xs[1]\<close>.\<close>

fun split_char :: "char \<Rightarrow> string \<Rightarrow> string list" where
  "split_char sep [] = [[]]"
| "split_char sep (c # cs) =
     (if c = sep then [] # split_char sep cs
      else (case split_char sep cs of p # ps \<Rightarrow> (c # p) # ps | [] \<Rightarrow> [[c]]))"

definition second :: "string list \<Rightarrow> string option" where
  "second xs = (case xs of _ # x # _ \<Rightarrow> Some x | _ \<Rightarrow> None)"

text \<open>
  \<open>Inl\<close> is the \<^verbatim>\<open>WebhookAuthorizationError\<close> thrown; \<open>Inr\<close> is the value returned
  (the JWT payload in \<^verbatim>\<open>jwtAuth\<close> mode, undefined otherwise).
\<close>

definition validateWebhookAuthentication ::
  "libs \<Rightarrow> webhook_functions \<Rightarrow> auth_error + jsval" where
  "validateWebhookAuthentication L ctx =
     (let authentication = authentication (getNodeParameters ctx);
          req = getRequestObject ctx;
          headers = getHeaderData ctx
      in
      if authentication = ''none'' then Inr JUndefined
      else if authentication = ''basicAuth'' then
        (case getCredentials ctx ''httpBasicAuth'' of
           None \<Rightarrow> Inl no_auth_data
         | Some expectedAuth \<Rightarrow>
             if falsy (expectedAuth ''user'') \<or> falsy (expectedAuth ''password'')
             then Inl no_auth_data
             else (case basicAuth L req of
                     None \<Rightarrow> Inl (WebhookAuthorizationError 401 None)
                   | Some (provided_name, provided_pass) \<Rightarrow>
                       if Some provided_name \<noteq> expectedAuth ''user''
                          \<or> Some provided_pass \<noteq> expectedAuth ''password''
                       then Inl (WebhookAuthorizationError 403 None)
                       else Inr JUndefined))
      else if authentication = ''bearerAuth'' then
        (let expectedToken =
               (case getCredentials ctx ''httpBearerAuth'' of
                  None \<Rightarrow> None | Some expectedAuth \<Rightarrow> expectedAuth ''token'')
         in if falsy expectedToken then Inl no_auth_data
            else if headers ''authorization'' \<noteq> Some (''Bearer '' @ the expectedToken)
            then Inl (WebhookAuthorizationError 403 None)
            else Inr JUndefined)
      else if authentication = ''headerAuth'' then
        (case getCredentials ctx ''httpHeaderAuth'' of
           None \<Rightarrow> Inl no_auth_data
         | Some expectedAuth \<Rightarrow>
             if falsy (expectedAuth ''name'') \<or> falsy (expectedAuth ''value'')
             then Inl no_auth_data
             else (let headerName = toLowerCase (the (expectedAuth ''name''));
                       expectedValue = the (expectedAuth ''value'')
                   in if headers headerName \<noteq> Some expectedValue
                      then Inl (WebhookAuthorizationError 403 None)
                      else Inr JUndefined))
      else if authentication = ''jwtAuth'' then
        (case getCredentials ctx ''jwtAuth'' of
           None \<Rightarrow> Inl no_auth_data
         | Some expectedAuth \<Rightarrow>
             (let token =
                    (case headers ''authorization'' of
                       None \<Rightarrow> None
                     | Some authHeader \<Rightarrow> second (split_char CHR '' '' authHeader))
              in if falsy token
                 then Inl (WebhookAuthorizationError 401 (Some ''No token provided''))
                 else (let secretOrPublicKey =
                             (if expectedAuth ''keyType'' = Some ''passphrase''
                              then expectedAuth ''secret''
                              else formatPrivateKey (expectedAuth ''publicKey'') True)
                       in case jwt_verify L (the token) secretOrPublicKey
                                 (expectedAuth ''algorithm'') of
                            Inr payload \<Rightarrow> Inr payload
                          | Inl message \<Rightarrow>
                              Inl (WebhookAuthorizationError 403 (Some message)))))
      else Inr JUndefined)"

section \<open>The form trigger\<close>

subsection \<open>The static text of the page\<close>

text \<open>
  \<^verbatim>\<open>generateFormHtml\<close> returns one template literal (lines 581-880). Its static text
  between two consecutive placeholders is one constant below, in the order of the source,
  with the escapes of the template literal resolved.
\<close>

definition template_0 :: string where
  \<open>template_0 = ''
<!DOCTYPE html>
<html>
	<head>
		<meta charset='UTF-8' />
		<meta name='viewport' content='width=device-width, initial-scale=1.0' />
		<link href="https://fonts.googleapis.com/css2?family=Open+Sans:ital,wght@0,300..800;1,300..800&display=swap" rel="stylesheet">

    <style>
    :root {
				/* Fonts */
				--font-family: "Open Sans", sans-serif;
				--font-size-body: 12px;

				/* Colors */
				--color-background: #fbfcfe;
				--color-card-bg: #ffffff;
				--color-card-border: #dbdfe7;
				--color-card-shadow: rgba(99, 77, 255, 0.06);
				--color-input-border: #dbdfe7;

				/* Border Radii */
				--border-radius-card: 8px;

				/* Spacing */
				--padding-container-top: 24px;
				--padding-card: 24px;
				--margin-bottom-card: 16px;

 				/* Dimensions */
				--container-width: 448px;

				/* Others */
				--box-shadow-card: 0px 4px 16px 0px var(--color-card-shadow);
			}

 			*,
			::after,
			::before {
				box-sizing: border-box;
				margin: 0;
				padding: 0;
			}

      body {
				font-family: var(--font-family);
				font-weight: 400;
				font-size: var(--font-size-body);
				display: flex;
				flex-direction: column;
				justify-content: start;
				background-color: var(--color-background);
			}

      .container {
				margin: auto;
				text-align: center;
				padding-top: var(--padding-container-top);
				width: var(--container-width);
			}


 			.card {
				padding: var(--padding-card);
				background-color: var(--color-card-bg);
				border: 1px solid var(--color-card-border);
				border-radius: var(--border-radius-card);
				box-shadow: var(--box-shadow-card);
				margin-bottom: var(--margin-bottom-card);
			}

      @media only screen and (max-width: 500px) {
				body {
					background-color: var(--color-background);
				}
        .container {
					width: 95%;
					min-height: 100vh;
					padding: 24px;
					border: 0px solid var(--color-input-border);
					border-radius: 0px;
					box-shadow: 0px 0px 0px 0px #ffffff;
				}
				.card {
					padding: 0px;
					background-color: var(--color-card-bg);
					border: 0px solid var(--color-input-border);
					border-radius: 0px;
					box-shadow: 0px 0px 0px 0px #ffffff;
					margin-bottom: 0px;
				}
			}

    </style>

    ''\<close>

definition template_1 :: string where
  \<open>template_1 = ''
  </head>
  <body>
		<div class='container'>
      <div class='card' id='n8n-form'>
        <vuetify-json-forms id="vuetify-json-forms"></vuetify-json-forms>
      </div>

      <div class='card' id='submitted-form' style='display: none;'>
        <div class='form-header'>
          <h1 id='submitted-header'>Form Submitted</h1>
          ''\<close>

definition template_2 :: string where
  \<open>template_2 = ''
        </div>
      </div>
      ''\<close>

definition template_3 :: string where
  \<open>template_3 = ''
      <input id="useResponseData" style="display: none;" value=''\<close>

definition template_4 :: string where
  \<open>template_4 = ('' />
    </div>

    <script type="text/javascript">

			const n8nForm = document.querySelector('#n8n-form');

    	let interval = 1000;
			let timeoutId;
			let formWaitingUrl;

			const checkExecutionStatus = async () => {
				if (!interval) return;

				try {
					const response = await fetch(`${formWaitingUrl ?? window.location.href}/n8n-execution-status`);
					const text = (await response.text()).trim();

					if (text === "form-waiting") {
						window.location.replace(formWaitingUrl ?? window.location.href);
						return;
					}

					if (text === "success") {
						n8nForm.style.display = 'none';
						document.querySelector('#submitted-form').style.display = 'block';
						clearTimeout(timeoutId);
						return;
					}

					if (text === "null") {
						n8nForm.style.display = 'none';
						document.querySelector('#submitted-form').style.display = 'block';
						document.querySelector('#submitted-header').textContent = 'Could not get execution status';
						document.querySelector('#submitted-content').textContent =
							'Make sure "Save successful production executions" is enabled in your workflow settings';
						clearTimeout(timeoutId);
						return;
					}

					if(["canceled", "crashed", "error" ].includes(text)) {
						n8nForm.style.display = 'none';
						document.querySelector('#submitted-form').style.display = 'block';
						document.querySelector('#submitted-header').textContent = 'Problem submitting response';
						document.querySelector('#submitted-content').textContent =
							'Please try again or contact support if the problem persists';
						clearTimeout(timeoutId);
						return;
					}

					interval = Math.round(interval * 1.1);
					timeoutId = setTimeout(checkExecutionStatus, interval);
				} catch (error) {
					console.error("Error fetching data:", error);
				}
			};


      const onChange = (customEvent) => {
        let [event] = customEvent.detail;

        if (event.errors && event.errors.length > 0) {
          // just dump the errors in the JS console if there are errors
          console.log("Form state errors:", JSON.stringify(event.errors));
        }
      };

      const submit = async (event) => {
        const data = event.context.data;

        if (event.context.errors && event.context.errors.length > 0) {
          alert('Fix Errors');
        } else {
          try {
            event.context.readonly = true;

            let postUrl = '' @ [CHR 0x27] @ ''';
            if (!window.location.href.includes('form-waiting')) {
              postUrl = window.location.search;
            }

            const response = await fetch(postUrl, { method: 'POST', body: JSON.stringify( { data: data, event: event.params } ) });
            const useResponseData = document.getElementById("useResponseData").value;

            if (useResponseData === "true") {
              const text = await response.text();
              let json;

              try{
                json = JSON.parse(text);
              } catch (e) {}

              if(json?.formWaitingUrl) {
                formWaitingUrl = json.formWaitingUrl;
                clearTimeout(timeoutId);
                timeoutId = setTimeout(checkExecutionStatus, interval);
                return;
              }

              if (json?.redirectURL) {
                const url = json.redirectURL.includes("://") ? json.redirectURL : "https://" + json.redirectURL;
                window.location.replace(url);
                return;
              }

              if (json?.formSubmittedText) {
                n8nForm.style.display = 'none';
                document.querySelector('#submitted-form').style.display = 'block';
                document.querySelector('#submitted-content').textContent = json.formSubmittedText;
                return;
              }

              if (text) {
                document.body.innerHTML = text;
                return;
              }

              if (text === '' @ [CHR 0x27] @ ''') {
                // this is empty cleanup response from responsePromise
                // no need to keep checking execution status
                clearTimeout(timeoutId);
                interval = 0;
              }
            }

            if (response.status === 200) {
              if(response.redirected) {
                window.location.replace(response.url);
                return;
              }
              const redirectUrl = document.getElementById("redirectUrl");
              if (redirectUrl) {
                window.location.replace(redirectUrl.href);
              } else {
                n8nForm.style.display = 'none';
                document.querySelector('#submitted-form').style.display = 'block';
              }
            } else {
              n8nForm.style.display = 'none';
              document.querySelector('#submitted-form').style.display = 'block';
              document.querySelector('#submitted-header').textContent = 'Problem submitting response';
              document.querySelector('#submitted-content').textContent =
                'Please try again or contact support if the problem persists';
            }

          } finally {
            event.context.readonly = false;

            if (window.location.href.includes('form-waiting')) {
								clearTimeout(timeoutId);
								timeoutId = setTimeout(checkExecutionStatus, interval);
						}
          }
        }
      };

      const onHandleAction = (customEvent) => {
        let [event] = customEvent.detail;
        if (event.action === 'n8n:submit') {
          event.callback = submit;
        }
      };

      var form = document.getElementById("vuetify-json-forms");
      '')\<close>

definition template_5 :: string where
  \<open>template_5 = ''
      ''\<close>

definition template_6 :: string where
  \<open>template_6 = ''
      ''\<close>

definition template_7 :: string where
  \<open>template_7 = ''
      ''\<close>

definition template_8 :: string where
  \<open>template_8 = ''
      
      ''\<close>

definition template_9 :: string where
  \<open>template_9 = ''
      ''\<close>

definition template_10 :: string where
  \<open>template_10 = ''
      ''\<close>

definition template_11 :: string where
  \<open>template_11 = ''
      ''\<close>

definition template_12 :: string where
  \<open>template_12 = ''

      form.addEventListener("change", onChange);
      form.addEventListener("handle-action", onHandleAction);
    </script>

    <script
      type="module"
      src="https://cdn.jsdelivr.net/npm/@chobantonov/jsonforms-vuetify-webcomponent@3.6.0/dist/vuetify-json-forms.min.js"
    ></script>
  </body>
</html>''\<close>


subsection \<open>isFormConnected and generateFormHtml\<close>

definition isFormConnected :: "libs \<Rightarrow> child_node list \<Rightarrow> bool" where
  "isFormConnected L nodes =
     list_ex (\<lambda>n. node_type n = FORM_NODE_TYPE L
                \<or> (node_type n = WAIT_NODE_TYPE L
                    \<and> (case parameters n of
                          None \<Rightarrow> False
                        | Some p \<Rightarrow> p ''resume'' = Some (JStr ''form'')))) nodes"

text \<open>
  Lines 551-562: \<^verbatim>\<open>formSubmittedText\<close> and \<^verbatim>\<open>redirectUrl\<close> as the options give
  them, where \<open>None\<close> is undefined. When \<^verbatim>\<open>respondWithOptions\<close> is set without
  \<^verbatim>\<open>values\<close>, reading \<^verbatim>\<open>values.respondWith\<close> throws a TypeError.
\<close>

definition configured_response :: "options_bag \<Rightarrow> js_error + (string option \<times> string option)" where
  "configured_response opts =
     (case respondWithOptions opts of
        Some None \<Rightarrow> Inl TypeError
      | Some (Some values) \<Rightarrow>
          Inr (if respondWith values = ''text'' then formSubmittedText values else None,
               if respondWith values = ''redirect'' then redirectUrl values else None)
      | None \<Rightarrow> Inr (text_option opts, None))"

text \<open>The placeholders of the template, in the order of the source.\<close>

definition custom_css_slot :: "libs \<Rightarrow> webhook_functions \<Rightarrow> string" where
  \<open>custom_css_slot L ctx =
     (case sanitizeCustomCss L (customCss (options (getNodeParameters ctx))) of
        None \<Rightarrow> []
      | Some dangerousCustomCss \<Rightarrow>
          if dangerousCustomCss = [] then []
          else ''<style>'' @ dangerousCustomCss @ ''</style>'')\<close>

definition submitted_content_slot :: "string \<Rightarrow> string" where
  \<open>submitted_content_slot shown =
     (if shown = [] then []
      else ''<p id='submitted-content'>
              '' @ shown @ ''
            </p>'')\<close>

definition redirect_slot :: "string option \<Rightarrow> string" where
  \<open>redirect_slot target =
     (case target of
        None \<Rightarrow> []
      | Some url \<Rightarrow>
          if url = [] then []
          else (''<a id='redirectUrl' href='' @ [CHR 0x27]) @ url @ ''' style='display: none;'></a>'')\<close>

text \<open>\<^verbatim>\<open>JSON.stringify(s).replace(/\//g, "\\/")\<close>: every slash gets a backslash before it.\<close>

definition escape_slashes :: "string \<Rightarrow> string" where
  "escape_slashes s = concat (map (\<lambda>c. if c = CHR ''/'' then [CHR 0x5C, CHR ''/''] else [c]) s)"

definition stringify_escaped :: "libs \<Rightarrow> string \<Rightarrow> string" where
  "stringify_escaped L s = escape_slashes (JSON_stringify L (JStr s))"

text \<open>The four parameters are set when they are neither undefined nor null.\<close>

definition parameter_slot :: "libs \<Rightarrow> string \<Rightarrow> string option \<Rightarrow> string" where
  \<open>parameter_slot L attribute v =
     (case v of
        None \<Rightarrow> []
      | Some s \<Rightarrow> ''form.setAttribute("'' @ attribute @ ''",'' @ stringify_escaped L s @ '');'')\<close>

text \<open>An option is set when it is truthy: present and not the empty string.\<close>

definition option_slot :: "libs \<Rightarrow> string \<Rightarrow> string option \<Rightarrow> string" where
  \<open>option_slot L attribute v =
     (if falsy v then []
      else (''form.setAttribute('' @ [CHR 0x27]) @ attribute @ ''', '' @ stringify_escaped L (the v) @ '');'')\<close>

text \<open>
  The custom style is sanitized first. \<^verbatim>\<open>JSON.stringify\<close> of undefined is undefined,
  and \<^verbatim>\<open>replace\<close> on it throws a TypeError.
\<close>

definition custom_style_slot :: "libs \<Rightarrow> webhook_functions \<Rightarrow> js_error + string" where
  \<open>custom_style_slot L ctx =
     (let v = customStyle (options (getNodeParameters ctx))
      in if falsy v then Inr []
         else (case sanitizeCustomCss L v of
                 None \<Rightarrow> Inl TypeError
               | Some sanitized \<Rightarrow>
                   Inr ((''form.setAttribute('' @ [CHR 0x27]) @ ''custom-style'' @ ''', ''
                        @ stringify_escaped L sanitized @ '');'')))\<close>

definition readonly_slot :: "webhook_functions \<Rightarrow> string" where
  \<open>readonly_slot ctx =
     (if readonly (options (getNodeParameters ctx)) = Some True
      then (''form.setAttribute('readonly', '' @ [CHR 0x27] @ ''');'') else [])\<close>

text \<open>
  \<^verbatim>\<open>generateFormHtml\<close> (lines 521-881): the page, or the error thrown on the way. The
  local variables keep the names of the source.
\<close>

definition generateFormHtml :: "libs \<Rightarrow> webhook_functions \<Rightarrow> js_error + string" where
  "generateFormHtml L ctx =
     (let p = getNodeParameters ctx; opts = options p
      in case configured_response opts of
           Inl e \<Rightarrow> Inl e
         | Inr (configuredText, configuredRedirect) \<Rightarrow>
             (let hasNextPage = isFormConnected L (getChildNodes ctx True);
                  redirectUrl = (if hasNextPage then None else configuredRedirect);
                  responseMode =
                    (if hasNextPage then ''responseNode''
                     else (case responseMode p of None \<Rightarrow> [] | Some m \<Rightarrow> m));
                  formSubmittedText =
                    (case configuredText of
                       None \<Rightarrow> ''Your response has been recorded''
                     | Some t \<Rightarrow> t);
                  useResponseData = (responseMode = ''responseNode'')
              in case custom_style_slot L ctx of
                   Inl e \<Rightarrow> Inl e
                 | Inr style_slot \<Rightarrow>
                     Inr (template_0 @ custom_css_slot L ctx
                        @ template_1 @ submitted_content_slot formSubmittedText
                        @ template_2 @ redirect_slot redirectUrl
                        @ template_3 @ (if useResponseData then ''true'' else ''false'')
                        @ template_4 @ parameter_slot L ''data'' (data p)
                        @ template_5 @ parameter_slot L ''schema'' (jsonSchema p)
                        @ template_6 @ parameter_slot L ''uischema'' (uiSchema p)
                        @ template_7 @ parameter_slot L ''config'' (config p)
                        @ template_8 @ option_slot L ''vuetify-options'' (vuetifyOptions opts)
                        @ template_9 @ style_slot
                        @ template_10 @ option_slot L ''validation-mode'' (validationMode opts)
                        @ template_11 @ readonly_slot ctx
                        @ template_12)))"

subsection \<open>webhook\<close>

record http_response =
  status :: nat
  response_headers :: "(string \<times> string) list"
  response_body :: "string option"

text \<open>
  What one call of \<^verbatim>\<open>webhook\<close> does: it writes a response and returns
  \<^verbatim>\<open>{noWebhookResponse: true}\<close>, or it returns the status of the acknowledgement and the
  workflow data, or it throws.
\<close>

datatype webhook_response_data =
    NoWebhookResponse http_response
  | WorkflowData nat "jsval list list"
  | Thrown js_error

text \<open>The body of the \<^verbatim>\<open>try\<close> block (lines 419-426).\<close>

definition authenticate :: "libs \<Rightarrow> webhook_functions \<Rightarrow> auth_error + jsval" where
  "authenticate L ctx =
     (if ignoreBots (options (getNodeParameters ctx)) = Some True
         \<and> isbot L (headers (getRequestObject ctx) ''user-agent'')
      then Inl (WebhookAuthorizationError 403 None)
      else validateWebhookAuthentication L ctx)"

text \<open>The response of the \<^verbatim>\<open>catch\<close> block (lines 428-432), whatever the error carries.\<close>

definition challenge :: http_response where
  \<open>challenge =
     \<lparr>status = 401,
      response_headers = [(''WWW-Authenticate'', ''Basic realm="Enter credentials"'')],
      response_body = None\<rparr>\<close>

definition validation_failed :: "libs \<Rightarrow> string \<Rightarrow> jsval list \<Rightarrow> http_response" where
  "validation_failed L message errs =
     \<lparr>status = 400,
      response_headers = [(''Content-Type'', ''application/json'')],
      response_body =
        Some (JSON_stringify L (JObj [(''message'', JStr message), (''errors'', JArr errs)]))\<rparr>"

text \<open>
  Lines 463-475: the event of the request after validation, or the response that ends
  the request. Without an event schema the event is taken as it was sent.
\<close>

definition validate_event ::
  "libs \<Rightarrow> options_bag \<Rightarrow> jsval \<Rightarrow> webhook_response_data + jsval" where
  "validate_event L opts request =
     (if falsy (eventJsonSchema opts) then Inr (member request ''event'')
      else (case JSON_parse L (the (eventJsonSchema opts)) of
              None \<Rightarrow> Inl (Thrown SyntaxError)
            | Some schema \<Rightarrow>
                (case ajv_compile L schema of
                   None \<Rightarrow> Inl (Thrown SchemaCompileError)
                 | Some validateEvent \<Rightarrow>
                     (let r = validateEvent (member request ''event'')
                      in if \<not> valid r
                         then Inl (NoWebhookResponse
                                (validation_failed L ''Event validation failed'' (errors r)))
                         else Inr (validated r)))))"

text \<open>Lines 479-501: the record handed to the workflow.\<close>

definition submittedAt :: "libs \<Rightarrow> webhook_functions \<Rightarrow> jsval" where
  "submittedAt L ctx =
     (let useWorkflowTimezone =
            (case useWorkflowTimezone (options (getNodeParameters ctx)) of
               None \<Rightarrow> True | Some b \<Rightarrow> b);
          timezone = (if useWorkflowTimezone then getTimezone ctx else ''UTC'')
      in toISO L (now ctx) timezone)"

definition formMode :: "webhook_functions \<Rightarrow> string" where
  "formMode ctx = (if getMode ctx = ''manual'' then ''test'' else ''production'')"

definition returnData :: "libs \<Rightarrow> webhook_functions \<Rightarrow> jsval \<Rightarrow> jsval \<Rightarrow> jsval list" where
  "returnData L ctx request_data request_event =
     [JObj ([(''data'', request_data),
             (''event'', request_event),
             (''submittedAt'', submittedAt L ctx),
             (''formMode'', JStr (formMode ctx))]
            @ (case query (getRequestObject ctx) of
                 None \<Rightarrow> []
               | Some q \<Rightarrow> if length (map fst q) > 0 then [(''formQueryParameters'', JObj q)] else []))]"

text \<open>The POST branch (lines 443-507).\<close>

definition webhook_post :: "libs \<Rightarrow> webhook_functions \<Rightarrow> webhook_response_data" where
  "webhook_post L ctx =
     (let p = getNodeParameters ctx; req = getRequestObject ctx
      in case JSON_parse L (body req) of
           None \<Rightarrow> Thrown SyntaxError
         | Some request \<Rightarrow>
             (case (case jsonSchema p of None \<Rightarrow> None | Some schema \<Rightarrow> JSON_parse L schema) of
                None \<Rightarrow> Thrown SyntaxError
              | Some schema \<Rightarrow>
                  (case ajv_compile L schema of
                     None \<Rightarrow> Thrown SchemaCompileError
                   | Some validateData \<Rightarrow>
                       if request = JNull \<or> request = JUndefined then Thrown TypeError
                       else
                         (let r = validateData (member request ''data'')
                          in if \<not> valid r
                             then NoWebhookResponse
                                    (validation_failed L ''Data validation failed'' (errors r))
                             else (case validate_event L (options p) request of
                                     Inl ended \<Rightarrow> ended
                                   | Inr request_event \<Rightarrow>
                                       WorkflowData 200
                                         [returnData L ctx (validated r) request_event])))))"

text \<open>What follows the \<^verbatim>\<open>try\<close> statement (lines 436-510).\<close>

definition webhook_dispatch :: "libs \<Rightarrow> webhook_functions \<Rightarrow> webhook_response_data" where
  "webhook_dispatch L ctx =
     (case validateResponseModeConfiguration ctx of
        Some e \<Rightarrow> Thrown e
      | None \<Rightarrow>
          if http_method (getRequestObject ctx) = ''GET'' then
            (case generateFormHtml L ctx of
               Inl e \<Rightarrow> Thrown e
             | Inr html \<Rightarrow>
                 NoWebhookResponse
                   \<lparr>status = 200, response_headers = [], response_body = Some html\<rparr>)
          else if http_method (getRequestObject ctx) = ''POST'' then webhook_post L ctx
          else NoWebhookResponse
                 \<lparr>status = 405, response_headers = [],
                  response_body = Some ''Method not allowed''\<rparr>)"

definition webhook :: "libs \<Rightarrow> webhook_functions \<Rightarrow> webhook_response_data" where
  "webhook L ctx =
     (case authenticate L ctx of
        Inl error \<Rightarrow> NoWebhookResponse challenge
      | Inr _ \<Rightarrow> webhook_dispatch L ctx)"

section \<open>Reading an outcome\<close>

text \<open>The HTTP status a call answers with; none when it throws.\<close>

definition answered_status :: "webhook_response_data \<Rightarrow> nat option" where
  "answered_status r =
     (case r of
        NoWebhookResponse h \<Rightarrow> Some (status h)
      | WorkflowData s _ \<Rightarrow> Some s
      | Thrown _ \<Rightarrow> None)"

text \<open>\<^verbatim>\<open>Object.keys\<close> of a record.\<close>

definition object_keys :: "jsval \<Rightarrow> string list" where
  "object_keys v = (case v of JObj kvs \<Rightarrow> map fst kvs | _ \<Rightarrow> [])"

section \<open>An instance for the examples\<close>

text \<open>
  The theorems below hold for every value of the library parameters. The examples run
  the handler on one instance: each function gives the library's value at the inputs the
  examples use, and a placeholder elsewhere (\<^verbatim>\<open>JSON.stringify\<close> is written out below). The schema of the examples is the one of
  Ajv's documentation of \<^verbatim>\<open>useDefaults\<close>, without its type keywords: property
  \<^verbatim>\<open>foo\<close> is required and property \<^verbatim>\<open>bar\<close> has the default \<^verbatim>\<open>"baz"\<close>.
\<close>

definition example_schema_text :: string where
  \<open>example_schema_text = ''{"properties":{"bar":{"default":"baz"}},"required":["foo"]}''\<close>

definition example_schema :: jsval where
  "example_schema =
     JObj [(''properties'', JObj [(''bar'', JObj [(''default'', JStr ''baz'')])]),
           (''required'', JArr [JStr ''foo''])]"

definition example_event_schema_text :: string where
  \<open>example_event_schema_text = ''{"required":["action"]}''\<close>

definition example_event_schema :: jsval where
  "example_event_schema = JObj [(''required'', JArr [JStr ''action''])]"

text \<open>The error Ajv records for a missing required property (with \<^verbatim>\<open>verbose: true\<close>).\<close>

definition required_error :: "string \<Rightarrow> jsval \<Rightarrow> jsval \<Rightarrow> jsval" where
  "required_error key parentSchema v =
     JObj [(''instancePath'', JStr []),
           (''schemaPath'', JStr ''#/required''),
           (''keyword'', JStr ''required''),
           (''params'', JObj [(''missingProperty'', JStr key)]),
           (''message'', JStr (''must have required property '' @ [CHR 0x27] @ key @ [CHR 0x27])),
           (''schema'', JArr [JStr key]),
           (''parentSchema'', parentSchema),
           (''data'', v)]"

text \<open>
  The validator of \<open>example_schema\<close>: an object without \<^verbatim>\<open>bar\<close> gets the default, and
  an object without \<^verbatim>\<open>foo\<close> is rejected; a value that is not an object is valid.
\<close>

definition example_validate :: "jsval \<Rightarrow> ajv_result" where
  "example_validate v =
     (case v of
        JObj kvs \<Rightarrow>
          (let filled = JObj (if map_of kvs ''bar'' = None then kvs @ [(''bar'', JStr ''baz'')] else kvs)
           in if map_of kvs ''foo'' = None
              then \<lparr>valid = False, errors = [required_error ''foo'' example_schema filled],
                    validated = filled\<rparr>
              else \<lparr>valid = True, errors = [], validated = filled\<rparr>)
      | _ \<Rightarrow> \<lparr>valid = True, errors = [], validated = v\<rparr>)"

definition example_validate_event :: "jsval \<Rightarrow> ajv_result" where
  "example_validate_event v =
     (case v of
        JObj kvs \<Rightarrow>
          (if map_of kvs ''action'' = None
           then \<lparr>valid = False, errors = [required_error ''action'' example_event_schema v],
                 validated = v\<rparr>
           else \<lparr>valid = True, errors = [], validated = v\<rparr>)
      | _ \<Rightarrow> \<lparr>valid = True, errors = [], validated = v\<rparr>)"

definition example_parse :: "string \<Rightarrow> jsval option" where
  \<open>example_parse s =
     (if s = example_schema_text then Some example_schema
      else if s = example_event_schema_text then Some example_event_schema
      else if s = ''{"data":{"foo":1}}'' then Some (JObj [(''data'', JObj [(''foo'', JNum 1)])])
      else if s = ''{"data":{}}'' then Some (JObj [(''data'', JObj [])])
      else if s = ''{"data":{"foo":1},"event":{}}''
      then Some (JObj [(''data'', JObj [(''foo'', JNum 1)]), (''event'', JObj [])])
      else if s = ''{"data":{"foo":1},"event":{"action":"submit"}}''
      then Some (JObj [(''data'', JObj [(''foo'', JNum 1)]),
                       (''event'', JObj [(''action'', JStr ''submit'')])])
      else None)\<close>

text \<open>
  \<^verbatim>\<open>JSON.stringify\<close> on the values of the model (integers are written in decimal digits,
  as JavaScript writes them below \<open>10\<^sup>2\<^sup>1\<close>). The result is \<open>None\<close> where JavaScript
  returns undefined; a property that is undefined is left out, and an undefined element of
  an array is written \<^verbatim>\<open>null\<close>.
\<close>

definition escape_json_char :: "char \<Rightarrow> string" where
  "escape_json_char c =
     (if c = CHR 0x22 then [CHR 0x5C, CHR 0x22]
      else if c = CHR 0x5C then [CHR 0x5C, CHR 0x5C]
      else if c = CHR 0x08 then [CHR 0x5C, CHR ''b'']
      else if c = CHR 0x0C then [CHR 0x5C, CHR ''f'']
      else if c = CHR 0x0A then [CHR 0x5C, CHR ''n'']
      else if c = CHR 0x0D then [CHR 0x5C, CHR ''r'']
      else if c = CHR 0x09 then [CHR 0x5C, CHR ''t'']
      else if (of_char c :: nat) < 32
      then [CHR 0x5C, CHR ''u'', CHR ''0'', CHR ''0'',
            ''0123456789abcdef'' ! ((of_char c :: nat) div 16),
            ''0123456789abcdef'' ! ((of_char c :: nat) mod 16)]
      else [c])"

definition quote_json :: "string \<Rightarrow> string" where
  "quote_json s = [CHR 0x22] @ concat (map escape_json_char s) @ [CHR 0x22]"

fun show_nat :: "nat \<Rightarrow> string" where
  "show_nat n =
     (if n < 10 then [''0123456789'' ! n]
      else show_nat (n div 10) @ [''0123456789'' ! (n mod 10)])"

declare show_nat.simps [simp del]

definition show_int :: "int \<Rightarrow> string" where
  "show_int i = (if i < 0 then CHR ''-'' # show_nat (nat (- i)) else show_nat (nat i))"

fun join_commas :: "string list \<Rightarrow> string" where
  "join_commas [] = []"
| "join_commas [x] = x"
| "join_commas (x # y # ys) = x @ '','' @ join_commas (y # ys)"

primrec stringify :: "jsval \<Rightarrow> string option" where
  "stringify JUndefined = None"
| "stringify JNull = Some ''null''"
| "stringify (JBool b) = Some (if b then ''true'' else ''false'')"
| "stringify (JNum n) = Some (show_int n)"
| "stringify (JStr s) = Some (quote_json s)"
| "stringify (JArr xs) =
     Some (''['' @ join_commas (map (\<lambda>x. case x of None \<Rightarrow> ''null'' | Some t \<Rightarrow> t)
                                  (map stringify xs)) @ '']'')"
| "stringify (JObj kvs) =
     Some (''{'' @ join_commas (concat (map (\<lambda>kv. case snd kv of None \<Rightarrow> []
                                                | Some t \<Rightarrow> [quote_json (fst kv) @ '':'' @ t])
                                           (map (map_prod id stringify) kvs))) @ ''}'')"

definition example_libs :: libs where
  \<open>example_libs =
     \<lparr>isbot = (\<lambda>ua. ua = Some ''Googlebot/2.1 (+http://www.google.com/bot.html)''),
      basicAuth = (\<lambda>req.
         if headers req ''authorization'' = Some ''Basic YWxpY2U6c2VjcmV0''
         then Some (''alice'', ''secret'')
         else if headers req ''authorization'' = Some ''Basic YWxpY2U6d3Jvbmc=''
         then Some (''alice'', ''wrong'')
         else None),
      jwt_verify = (\<lambda>token key algorithm.
         if token = ''e30.e30.c2ln'' \<and> key = Some ''s3cret'' \<and> algorithm = Some ''HS256''
         then Inr (JObj [(''sub'', JStr ''alice'')])
         else Inl ''jwt malformed''),
      JSON_parse = example_parse,
      JSON_stringify = (\<lambda>v. case stringify v of None \<Rightarrow> [] | Some s \<Rightarrow> s),
      ajv_compile = (\<lambda>schema.
         if schema = example_schema then Some example_validate
         else if schema = example_event_schema then Some example_validate_event
         else None),
      toISO = (\<lambda>millis zone.
         if millis = 1704067200000 \<and> zone = ''UTC'' then JStr ''2024-01-01T00:00:00.000Z''
         else if millis = 1704067200000 \<and> zone = ''Europe/Berlin''
         then JStr ''2024-01-01T01:00:00.000+01:00''
         else JNull),
      sanitizeCustomCss = (\<lambda>css. if falsy css then None else css),
      FORM_NODE_TYPE = ''n8n-nodes-base.form'',
      WAIT_NODE_TYPE = ''n8n-nodes-base.wait''\<rparr>\<close>

definition example_options :: options_bag where
  "example_options =
     \<lparr>ignoreBots = None, respondWithOptions = None, text_option = None,
      useWorkflowTimezone = None, customCss = None, customStyle = None,
      vuetifyOptions = None, readonly = None, validationMode = None,
      eventJsonSchema = None\<rparr>"

definition example_parameters :: node_parameters where
  "example_parameters =
     \<lparr>authentication = ''none'', jsonSchema = Some example_schema_text,
      uiSchema = Some ''{}'', data = Some ''{}'', config = Some ''{}'',
      responseMode = Some ''onReceived'', options = example_options\<rparr>"

definition example_request :: request where
  "example_request =
     \<lparr>http_method = ''GET'', headers = Map.empty, body = [], query = Some []\<rparr>"

definition example_ctx :: webhook_functions where
  "example_ctx =
     \<lparr>getNodeParameters = example_parameters, getCredentials = Map.empty,
      getRequestObject = example_request,
      getNode = \<lparr>name = ''On form submission'', typeVersion = 1\<rparr>,
      childNodes = [], getTimezone = ''Europe/Berlin'', getMode = ''manual'',
      now = 1704067200000\<rparr>"

text \<open>The node in \<^verbatim>\<open>basicAuth\<close> mode with the stored credential alice / secret, and
  a request with the given authorization header.\<close>

definition basic_ctx :: "string option \<Rightarrow> webhook_functions" where
  "basic_ctx authorization =
     example_ctx
       \<lparr>getNodeParameters := example_parameters\<lparr>authentication := ''basicAuth''\<rparr>,
        getCredentials := [''httpBasicAuth'' \<mapsto> [''user'' \<mapsto> ''alice'', ''password'' \<mapsto> ''secret'']],
        getRequestObject := example_request\<lparr>headers := (\<lambda>h. if h = ''authorization'' then authorization else None)\<rparr>\<rparr>"

text \<open>A submission: the node with the given options, and a POST request with the given
  body and query.\<close>

definition post_ctx :: "options_bag \<Rightarrow> string \<Rightarrow> (string \<times> jsval) list option \<Rightarrow> webhook_functions" where
  "post_ctx opts request_body q =
     example_ctx
       \<lparr>getNodeParameters := example_parameters\<lparr>options := opts\<rparr>,
        getRequestObject := example_request\<lparr>http_method := ''POST'', body := request_body, query := q\<rparr>\<rparr>"

text \<open>A crawler asks for the form of a node that ignores bots.\<close>

definition bot_ctx :: webhook_functions where
  "bot_ctx =
     example_ctx
       \<lparr>getNodeParameters := example_parameters\<lparr>options := example_options\<lparr>ignoreBots := Some True\<rparr>\<rparr>,
        getRequestObject := example_request
          \<lparr>headers := [''user-agent'' \<mapsto> ''Googlebot/2.1 (+http://www.google.com/bot.html)'']\<rparr>\<rparr>"

text \<open>The node answers a submission with a redirect; the given nodes are connected
  downstream.\<close>

definition redirect_ctx :: "child_node list \<Rightarrow> webhook_functions" where
  "redirect_ctx nodes =
     example_ctx
       \<lparr>getNodeParameters := example_parameters
          \<lparr>options := example_options
             \<lparr>respondWithOptions :=
                Some (Some \<lparr>respondWith = ''redirect'', formSubmittedText = None,
                            redirectUrl = Some ''https://example.com''\<rparr>)\<rparr>\<rparr>,
        childNodes := nodes\<rparr>"

text \<open>
  The node in \<^verbatim>\<open>jwtAuth\<close> mode with a shared secret, and a request with the given
  authorization header.
\<close>

definition jwt_ctx :: "string option \<Rightarrow> webhook_functions" where
  "jwt_ctx authorization =
     example_ctx
       \<lparr>getNodeParameters := example_parameters\<lparr>authentication := ''jwtAuth''\<rparr>,
        getCredentials :=
          [''jwtAuth'' \<mapsto> [''keyType'' \<mapsto> ''passphrase'', ''secret'' \<mapsto> ''s3cret'',
                           ''algorithm'' \<mapsto> ''HS256'']],
        getRequestObject := example_request\<lparr>headers := (\<lambda>h. if h = ''authorization'' then authorization else None)\<rparr>\<rparr>"

section \<open>The claims\<close>

subsection \<open>Shared lemmas\<close>

lemma respond_connected_iff:
  "list_ex (\<lambda>node. node_type node = t) (getChildNodes ctx b)
     = (\<exists>n \<in> set (childNodes ctx). node_type n = t)"
  by (auto simp: getChildNodes_def list_ex_iff)

lemma auth_error_codes:
  "validateWebhookAuthentication L ctx = Inl (WebhookAuthorizationError code message)
     \<Longrightarrow> code = 401 \<or> code = 403 \<or> code = 500"
  by (auto simp: validateWebhookAuthentication_def Let_def no_auth_data_def
           split: if_splits option.splits prod.splits sum.splits)

lemma no_stored_credential:
  "(authentication (getNodeParameters ctx) = ''basicAuth'' \<and> getCredentials ctx ''httpBasicAuth'' = None)
   \<or> (authentication (getNodeParameters ctx) = ''bearerAuth'' \<and> getCredentials ctx ''httpBearerAuth'' = None)
   \<or> (authentication (getNodeParameters ctx) = ''headerAuth'' \<and> getCredentials ctx ''httpHeaderAuth'' = None)
   \<or> (authentication (getNodeParameters ctx) = ''jwtAuth'' \<and> getCredentials ctx ''jwtAuth'' = None)
   \<Longrightarrow> validateWebhookAuthentication L (ctx\<lparr>getRequestObject := r\<rparr>) = Inl no_auth_data"
  by (auto simp: validateWebhookAuthentication_def Let_def falsy_def)

lemma webhook_emits:
  assumes "webhook L ctx = WorkflowData st wd"
  shows "st = 200 \<and> (\<exists>d e. wd = [returnData L ctx d e])"
  using assms
  by (auto simp: webhook_def webhook_dispatch_def webhook_post_def validate_event_def Let_def
           split: sum.splits option.splits if_splits)

lemma returnData_shape:
  "returnData L ctx d e =
     [JObj ([(''data'', d), (''event'', e), (''submittedAt'', submittedAt L ctx),
             (''formMode'', JStr (formMode ctx))]
            @ (case query (getRequestObject ctx) of
                 None \<Rightarrow> []
               | Some q \<Rightarrow> if q = [] then [] else [(''formQueryParameters'', JObj q)]))]"
  by (simp add: returnData_def split: option.splits)

lemma isFormConnected_iff:
  "isFormConnected L nodes \<longleftrightarrow>
     (\<exists>n \<in> set nodes. node_type n = FORM_NODE_TYPE L
        \<or> (node_type n = WAIT_NODE_TYPE L
            \<and> (\<exists>p. parameters n = Some p \<and> p ''resume'' = Some (JStr ''form''))))"
proof -
  have "(case parameters n of None \<Rightarrow> False | Some p \<Rightarrow> p ''resume'' = Some (JStr ''form''))
          = (\<exists>p. parameters n = Some p \<and> p ''resume'' = Some (JStr ''form''))" for n :: child_node
    by (cases "parameters n") simp_all
  then show ?thesis by (simp add: isFormConnected_def list_ex_iff)
qed

lemma custom_style_slot_returns:
  assumes "falsy (customStyle (options (getNodeParameters ctx)))
           \<or> sanitizeCustomCss L (customStyle (options (getNodeParameters ctx))) \<noteq> None"
  shows "\<exists>style_slot. custom_style_slot L ctx = Inr style_slot"
  using assms by (auto simp: custom_style_slot_def Let_def)

lemma generateFormHtml_throws:
  assumes "respondWithOptions (options (getNodeParameters ctx)) = Some None
           \<or> (\<not> falsy (customStyle (options (getNodeParameters ctx)))
               \<and> sanitizeCustomCss L (customStyle (options (getNodeParameters ctx))) = None)"
  shows "generateFormHtml L ctx = Inl TypeError"
  using assms
  by (auto simp: generateFormHtml_def configured_response_def custom_style_slot_def Let_def
           split: option.splits)

lemma generateFormHtml_page:
  assumes "configured_response (options (getNodeParameters ctx)) = Inr (configuredText, configuredRedirect)"
      and "falsy (customStyle (options (getNodeParameters ctx)))
           \<or> sanitizeCustomCss L (customStyle (options (getNodeParameters ctx))) \<noteq> None"
  shows "\<exists>after. generateFormHtml L ctx =
           Inr (template_0 @ custom_css_slot L ctx
              @ template_1
              @ submitted_content_slot
                  (case configuredText of None \<Rightarrow> ''Your response has been recorded'' | Some t \<Rightarrow> t)
              @ template_2
              @ redirect_slot (if isFormConnected L (childNodes ctx) then None else configuredRedirect)
              @ template_3
              @ (if isFormConnected L (childNodes ctx)
                    \<or> responseMode (getNodeParameters ctx) = Some ''responseNode''
                 then ''true'' else ''false'')
              @ template_4 @ after)"
proof -
  from custom_style_slot_returns [OF assms(2)] obtain style_slot
    where style: "custom_style_slot L ctx = Inr style_slot" ..
  have mode: "((if isFormConnected L (childNodes ctx) then ''responseNode''
               else (case responseMode (getNodeParameters ctx) of None \<Rightarrow> [] | Some m \<Rightarrow> m))
              = ''responseNode'')
             = (isFormConnected L (childNodes ctx)
                \<or> responseMode (getNodeParameters ctx) = Some ''responseNode'')"
    by (simp split: option.splits)
  show ?thesis
    by (simp add: generateFormHtml_def assms(1) style getChildNodes_def mode Let_def)
qed

lemma example_libs_fields:
  "isbot example_libs = (\<lambda>ua. ua = Some ''Googlebot/2.1 (+http://www.google.com/bot.html)'')"
  "basicAuth example_libs = (\<lambda>req.
         if headers req ''authorization'' = Some ''Basic YWxpY2U6c2VjcmV0''
         then Some (''alice'', ''secret'')
         else if headers req ''authorization'' = Some ''Basic YWxpY2U6d3Jvbmc=''
         then Some (''alice'', ''wrong'')
         else None)"
  "JSON_parse example_libs = example_parse"
  "ajv_compile example_libs = (\<lambda>schema.
         if schema = example_schema then Some example_validate
         else if schema = example_event_schema then Some example_validate_event
         else None)"
  "toISO example_libs = (\<lambda>millis zone.
         if millis = 1704067200000 \<and> zone = ''UTC'' then JStr ''2024-01-01T00:00:00.000Z''
         else if millis = 1704067200000 \<and> zone = ''Europe/Berlin''
         then JStr ''2024-01-01T01:00:00.000+01:00''
         else JNull)"
  "sanitizeCustomCss example_libs = (\<lambda>css. if falsy css then None else css)"
  "FORM_NODE_TYPE example_libs = ''n8n-nodes-base.form''"
  "WAIT_NODE_TYPE example_libs = ''n8n-nodes-base.wait''"
  "jwt_verify example_libs = (\<lambda>token key algorithm.
         if token = ''e30.e30.c2ln'' \<and> key = Some ''s3cret'' \<and> algorithm = Some ''HS256''
         then Inr (JObj [(''sub'', JStr ''alice'')])
         else Inl ''jwt malformed'')"
  by (simp_all add: example_libs_def)

lemmas page_defs =
  generateFormHtml_def configured_response_def custom_style_slot_def custom_css_slot_def
  submitted_content_slot_def redirect_slot_def readonly_slot_def Let_def

lemma post_ctx_fields:
  "getNodeParameters (post_ctx opts b q) = example_parameters\<lparr>options := opts\<rparr>"
  "getCredentials (post_ctx opts b q) = Map.empty"
  "getRequestObject (post_ctx opts b q)
     = example_request\<lparr>http_method := ''POST'', body := b, query := q\<rparr>"
  "childNodes (post_ctx opts b q) = []"
  "getNode (post_ctx opts b q) = \<lparr>name = ''On form submission'', typeVersion = 1\<rparr>"
  "getTimezone (post_ctx opts b q) = ''Europe/Berlin''"
  "getMode (post_ctx opts b q) = ''manual''"
  "now (post_ctx opts b q) = 1704067200000"
  by (simp_all add: post_ctx_def example_ctx_def)

lemma example_post_passes:
  "authenticate example_libs ((post_ctx opts b q)\<lparr>getMode := m\<rparr>) = Inr JUndefined"
  "validateResponseModeConfiguration ((post_ctx opts b q)\<lparr>getMode := m\<rparr>) = None"
  "http_method (getRequestObject ((post_ctx opts b q)\<lparr>getMode := m\<rparr>)) = ''POST''"
  by (simp_all add: authenticate_def validateWebhookAuthentication_def
        validateResponseModeConfiguration_def getChildNodes_def post_ctx_fields
        example_parameters_def example_request_def example_libs_fields)

lemma example_parse_values:
  \<open>example_parse example_schema_text = Some example_schema\<close>
  \<open>example_parse example_event_schema_text = Some example_event_schema\<close>
  \<open>example_parse ''{"data":{"foo":1}}'' = Some (JObj [(''data'', JObj [(''foo'', JNum 1)])])\<close>
  \<open>example_parse ''{"data":{}}'' = Some (JObj [(''data'', JObj [])])\<close>
  \<open>example_parse ''{"data":{"foo":1},"event":{}}''
     = Some (JObj [(''data'', JObj [(''foo'', JNum 1)]), (''event'', JObj [])])\<close>
  by (simp_all add: example_parse_def example_schema_text_def example_event_schema_text_def)

lemma example_compile_values:
  "ajv_compile example_libs example_schema = Some example_validate"
  "ajv_compile example_libs example_event_schema = Some example_validate_event"
  by (simp_all add: example_libs_fields example_schema_def example_event_schema_def)

lemma example_submission:
  assumes "eventJsonSchema opts = None"
  shows \<open>webhook example_libs ((post_ctx opts ''{"data":{"foo":1}}'' q)\<lparr>getMode := m\<rparr>)
           = WorkflowData 200
               [returnData example_libs ((post_ctx opts ''{"data":{"foo":1}}'' q)\<lparr>getMode := m\<rparr>)
                  (JObj [(''foo'', JNum 1), (''bar'', JStr ''baz'')]) JUndefined]\<close>
  using assms
  by (simp add: webhook_def webhook_dispatch_def example_post_passes webhook_post_def
        validate_event_def falsy_def member_def Let_def post_ctx_fields example_parameters_def
        example_request_def example_libs_fields(3) example_parse_values example_compile_values
        example_validate_def)

subsection \<open>C1: the authentication gate of the handler\<close>

text \<open>
  C1, as the code has it. The gate of the handler is the bot filter followed by
  \<^verbatim>\<open>validateWebhookAuthentication\<close>. When the gate accepts the request, processing
  continues with what follows the \<^verbatim>\<open>try\<close> statement. Every authorization error of
  the gate is answered with HTTP status 401 and the Basic challenge, whatever code the
  error carries. When the bot filter fires, the gate refuses the request in every mode;
  when it does not, the verdict of the gate is the verdict of the routine. The routine
  only throws the codes 401, 403 and 500, and in each of the four modes with a credential
  it throws 500 when no credential is stored, or one of its required fields is empty,
  whatever the request is. With a complete credential stored, the routine

  \<^item> accepts every request in mode \<^verbatim>\<open>none\<close>, and in a mode it does not know;
  \<^item> in mode \<^verbatim>\<open>basicAuth\<close> accepts the stored user and password, throws 401 when the
    request carries no credentials and 403 when it carries other ones;
  \<^item> in mode \<^verbatim>\<open>bearerAuth\<close> accepts exactly the authorization header \<^verbatim>\<open>Bearer\<close>
    followed by the token, and throws 403 otherwise;
  \<^item> in mode \<^verbatim>\<open>headerAuth\<close> accepts exactly the requests whose header of the stored
    name, in lower case, holds the stored value, and throws 403 otherwise;
  \<^item> in mode \<^verbatim>\<open>jwtAuth\<close> throws 401 when the authorization header is missing or has
    nothing after its first space; otherwise it verifies what stands between the first and
    the second space with the stored secret (key type \<^verbatim>\<open>passphrase\<close>) or the formatted
    public key, accepts with the payload when the verification succeeds, and throws 403
    with the message of the verifier when it fails.
\<close>

theorem webhook_authentication_gate:
  "(\<forall>v. authenticate L ctx = Inr v \<longrightarrow> webhook L ctx = webhook_dispatch L ctx)
   \<and> (\<forall>code message. authenticate L ctx = Inl (WebhookAuthorizationError code message) \<longrightarrow>
         webhook L ctx = NoWebhookResponse challenge)
   \<and> answered_status (NoWebhookResponse challenge) = Some 401
   \<and> (\<forall>code message.
         validateWebhookAuthentication L ctx = Inl (WebhookAuthorizationError code message) \<longrightarrow>
         code = 401 \<or> code = 403 \<or> code = 500)
   \<and> ((authentication (getNodeParameters ctx) = ''basicAuth'' \<and> getCredentials ctx ''httpBasicAuth'' = None)
       \<or> (authentication (getNodeParameters ctx) = ''bearerAuth'' \<and> getCredentials ctx ''httpBearerAuth'' = None)
       \<or> (authentication (getNodeParameters ctx) = ''headerAuth'' \<and> getCredentials ctx ''httpHeaderAuth'' = None)
       \<or> (authentication (getNodeParameters ctx) = ''jwtAuth'' \<and> getCredentials ctx ''jwtAuth'' = None)
       \<longrightarrow> (\<forall>r. validateWebhookAuthentication L (ctx\<lparr>getRequestObject := r\<rparr>)
                  = Inl (WebhookAuthorizationError 500 (Some ''No authentication data defined on node!''))))
   \<and> (authentication (getNodeParameters ctx) = ''none''
         \<longrightarrow> validateWebhookAuthentication L ctx = Inr JUndefined)
   \<and> (\<forall>c t. authentication (getNodeParameters ctx) = ''bearerAuth''
           \<and> getCredentials ctx ''httpBearerAuth'' = Some c \<and> c ''token'' = Some t \<and> t \<noteq> []
         \<longrightarrow> validateWebhookAuthentication L ctx
             = (if headers (getRequestObject ctx) ''authorization'' = Some (''Bearer '' @ t)
                then Inr JUndefined else Inl (WebhookAuthorizationError 403 None)))
   \<and> (\<forall>c n v. authentication (getNodeParameters ctx) = ''headerAuth''
           \<and> getCredentials ctx ''httpHeaderAuth'' = Some c
           \<and> c ''name'' = Some n \<and> n \<noteq> [] \<and> c ''value'' = Some v \<and> v \<noteq> []
         \<longrightarrow> validateWebhookAuthentication L ctx
             = (if headers (getRequestObject ctx) (toLowerCase n) = Some v
                then Inr JUndefined else Inl (WebhookAuthorizationError 403 None)))
   \<and> (\<forall>c. authentication (getNodeParameters ctx) = ''jwtAuth''
           \<and> getCredentials ctx ''jwtAuth'' = Some c
         \<longrightarrow> validateWebhookAuthentication L ctx
             = (case (case headers (getRequestObject ctx) ''authorization'' of
                        None \<Rightarrow> None
                      | Some authHeader \<Rightarrow> second (split_char CHR '' '' authHeader)) of
                  None \<Rightarrow> Inl (WebhookAuthorizationError 401 (Some ''No token provided''))
                | Some token \<Rightarrow>
                    if token = []
                    then Inl (WebhookAuthorizationError 401 (Some ''No token provided''))
                    else (case jwt_verify L token
                                 (if c ''keyType'' = Some ''passphrase'' then c ''secret''
                                  else formatPrivateKey (c ''publicKey'') True)
                                 (c ''algorithm'') of
                            Inr payload \<Rightarrow> Inr payload
                          | Inl message \<Rightarrow> Inl (WebhookAuthorizationError 403 (Some message)))))
   \<and> (\<forall>c u p. authentication (getNodeParameters ctx) = ''basicAuth''
           \<and> getCredentials ctx ''httpBasicAuth'' = Some c
           \<and> c ''user'' = Some u \<and> u \<noteq> [] \<and> c ''password'' = Some p \<and> p \<noteq> []
         \<longrightarrow> validateWebhookAuthentication L ctx
             = (case basicAuth L (getRequestObject ctx) of
                  None \<Rightarrow> Inl (WebhookAuthorizationError 401 None)
                | Some (provided_name, provided_pass) \<Rightarrow>
                    if provided_name = u \<and> provided_pass = p then Inr JUndefined
                    else Inl (WebhookAuthorizationError 403 None)))
   \<and> (\<forall>c. (authentication (getNodeParameters ctx) = ''basicAuth''
            \<and> getCredentials ctx ''httpBasicAuth'' = Some c
            \<and> (c ''user'' = None \<or> c ''user'' = Some [] \<or> c ''password'' = None \<or> c ''password'' = Some []))
         \<or> (authentication (getNodeParameters ctx) = ''bearerAuth''
            \<and> getCredentials ctx ''httpBearerAuth'' = Some c
            \<and> (c ''token'' = None \<or> c ''token'' = Some []))
         \<or> (authentication (getNodeParameters ctx) = ''headerAuth''
            \<and> getCredentials ctx ''httpHeaderAuth'' = Some c
            \<and> (c ''name'' = None \<or> c ''name'' = Some [] \<or> c ''value'' = None \<or> c ''value'' = Some []))
         \<longrightarrow> (\<forall>r. validateWebhookAuthentication L (ctx\<lparr>getRequestObject := r\<rparr>)
                  = Inl (WebhookAuthorizationError 500 (Some ''No authentication data defined on node!''))))
   \<and> (authentication (getNodeParameters ctx) \<noteq> ''none''
       \<and> authentication (getNodeParameters ctx) \<noteq> ''basicAuth''
       \<and> authentication (getNodeParameters ctx) \<noteq> ''bearerAuth''
       \<and> authentication (getNodeParameters ctx) \<noteq> ''headerAuth''
       \<and> authentication (getNodeParameters ctx) \<noteq> ''jwtAuth''
         \<longrightarrow> validateWebhookAuthentication L ctx = Inr JUndefined)
   \<and> (ignoreBots (options (getNodeParameters ctx)) = Some True
       \<and> isbot L (headers (getRequestObject ctx) ''user-agent'')
         \<longrightarrow> authenticate L ctx = Inl (WebhookAuthorizationError 403 None)
             \<and> webhook L ctx = NoWebhookResponse challenge)
   \<and> (\<not> (ignoreBots (options (getNodeParameters ctx)) = Some True
           \<and> isbot L (headers (getRequestObject ctx) ''user-agent''))
         \<longrightarrow> authenticate L ctx = validateWebhookAuthentication L ctx)"
proof -
  have modes:
    "authentication (getNodeParameters ctx) = ''none''
         \<longrightarrow> validateWebhookAuthentication L ctx = Inr JUndefined"
    "\<forall>c t. authentication (getNodeParameters ctx) = ''bearerAuth''
           \<and> getCredentials ctx ''httpBearerAuth'' = Some c \<and> c ''token'' = Some t \<and> t \<noteq> []
         \<longrightarrow> validateWebhookAuthentication L ctx
             = (if headers (getRequestObject ctx) ''authorization'' = Some (''Bearer '' @ t)
                then Inr JUndefined else Inl (WebhookAuthorizationError 403 None))"
    "\<forall>c n v. authentication (getNodeParameters ctx) = ''headerAuth''
           \<and> getCredentials ctx ''httpHeaderAuth'' = Some c
           \<and> c ''name'' = Some n \<and> n \<noteq> [] \<and> c ''value'' = Some v \<and> v \<noteq> []
         \<longrightarrow> validateWebhookAuthentication L ctx
             = (if headers (getRequestObject ctx) (toLowerCase n) = Some v
                then Inr JUndefined else Inl (WebhookAuthorizationError 403 None))"
    by (auto simp: validateWebhookAuthentication_def getHeaderData_def Let_def falsy_def)
  have jwt: "\<forall>c. authentication (getNodeParameters ctx) = ''jwtAuth''
           \<and> getCredentials ctx ''jwtAuth'' = Some c
         \<longrightarrow> validateWebhookAuthentication L ctx
             = (case (case headers (getRequestObject ctx) ''authorization'' of
                        None \<Rightarrow> None
                      | Some authHeader \<Rightarrow> second (split_char CHR '' '' authHeader)) of
                  None \<Rightarrow> Inl (WebhookAuthorizationError 401 (Some ''No token provided''))
                | Some token \<Rightarrow>
                    if token = []
                    then Inl (WebhookAuthorizationError 401 (Some ''No token provided''))
                    else (case jwt_verify L token
                                 (if c ''keyType'' = Some ''passphrase'' then c ''secret''
                                  else formatPrivateKey (c ''publicKey'') True)
                                 (c ''algorithm'') of
                            Inr payload \<Rightarrow> Inr payload
                          | Inl message \<Rightarrow> Inl (WebhookAuthorizationError 403 (Some message))))"
    by (auto simp: validateWebhookAuthentication_def getHeaderData_def Let_def falsy_def
             split: option.splits sum.splits)
  have basic: "\<forall>c u p. authentication (getNodeParameters ctx) = ''basicAuth''
           \<and> getCredentials ctx ''httpBasicAuth'' = Some c
           \<and> c ''user'' = Some u \<and> u \<noteq> [] \<and> c ''password'' = Some p \<and> p \<noteq> []
         \<longrightarrow> validateWebhookAuthentication L ctx
             = (case basicAuth L (getRequestObject ctx) of
                  None \<Rightarrow> Inl (WebhookAuthorizationError 401 None)
                | Some (provided_name, provided_pass) \<Rightarrow>
                    if provided_name = u \<and> provided_pass = p then Inr JUndefined
                    else Inl (WebhookAuthorizationError 403 None))"
    by (auto simp: validateWebhookAuthentication_def Let_def falsy_def split: option.splits)
  have incomplete: "\<forall>c. (authentication (getNodeParameters ctx) = ''basicAuth''
            \<and> getCredentials ctx ''httpBasicAuth'' = Some c
            \<and> (c ''user'' = None \<or> c ''user'' = Some [] \<or> c ''password'' = None \<or> c ''password'' = Some []))
         \<or> (authentication (getNodeParameters ctx) = ''bearerAuth''
            \<and> getCredentials ctx ''httpBearerAuth'' = Some c
            \<and> (c ''token'' = None \<or> c ''token'' = Some []))
         \<or> (authentication (getNodeParameters ctx) = ''headerAuth''
            \<and> getCredentials ctx ''httpHeaderAuth'' = Some c
            \<and> (c ''name'' = None \<or> c ''name'' = Some [] \<or> c ''value'' = None \<or> c ''value'' = Some []))
         \<longrightarrow> (\<forall>r. validateWebhookAuthentication L (ctx\<lparr>getRequestObject := r\<rparr>)
                  = Inl (WebhookAuthorizationError 500 (Some ''No authentication data defined on node!'')))"
    by (auto simp: validateWebhookAuthentication_def Let_def falsy_def no_auth_data_def)
  have unknown: "authentication (getNodeParameters ctx) \<noteq> ''none''
       \<and> authentication (getNodeParameters ctx) \<noteq> ''basicAuth''
       \<and> authentication (getNodeParameters ctx) \<noteq> ''bearerAuth''
       \<and> authentication (getNodeParameters ctx) \<noteq> ''headerAuth''
       \<and> authentication (getNodeParameters ctx) \<noteq> ''jwtAuth''
         \<longrightarrow> validateWebhookAuthentication L ctx = Inr JUndefined"
    by (simp add: validateWebhookAuthentication_def Let_def)
  have bot: "ignoreBots (options (getNodeParameters ctx)) = Some True
       \<and> isbot L (headers (getRequestObject ctx) ''user-agent'')
         \<longrightarrow> authenticate L ctx = Inl (WebhookAuthorizationError 403 None)
             \<and> webhook L ctx = NoWebhookResponse challenge"
    by (simp add: authenticate_def webhook_def)
  have no_bot: "\<not> (ignoreBots (options (getNodeParameters ctx)) = Some True
           \<and> isbot L (headers (getRequestObject ctx) ''user-agent''))
         \<longrightarrow> authenticate L ctx = validateWebhookAuthentication L ctx"
    by (auto simp: authenticate_def)
  have a: "\<forall>v. authenticate L ctx = Inr v \<longrightarrow> webhook L ctx = webhook_dispatch L ctx"
    by (simp add: webhook_def)
  have b: "\<forall>code message. authenticate L ctx = Inl (WebhookAuthorizationError code message) \<longrightarrow>
         webhook L ctx = NoWebhookResponse challenge"
    by (simp add: webhook_def)
  have c: "answered_status (NoWebhookResponse challenge) = Some 401"
    by (simp add: answered_status_def challenge_def)
  from auth_error_codes [of L ctx] no_stored_credential [of ctx L]
  have d: "(\<forall>code message.
         validateWebhookAuthentication L ctx = Inl (WebhookAuthorizationError code message) \<longrightarrow>
         code = 401 \<or> code = 403 \<or> code = 500)
   \<and> ((authentication (getNodeParameters ctx) = ''basicAuth'' \<and> getCredentials ctx ''httpBasicAuth'' = None)
       \<or> (authentication (getNodeParameters ctx) = ''bearerAuth'' \<and> getCredentials ctx ''httpBearerAuth'' = None)
       \<or> (authentication (getNodeParameters ctx) = ''headerAuth'' \<and> getCredentials ctx ''httpHeaderAuth'' = None)
       \<or> (authentication (getNodeParameters ctx) = ''jwtAuth'' \<and> getCredentials ctx ''jwtAuth'' = None)
       \<longrightarrow> (\<forall>r. validateWebhookAuthentication L (ctx\<lparr>getRequestObject := r\<rparr>)
                  = Inl (WebhookAuthorizationError 500 (Some ''No authentication data defined on node!''))))"
    unfolding no_auth_data_def by blast
  show ?thesis
    by (intro conjI a b c modes d [THEN conjunct1] d [THEN conjunct2] jwt basic incomplete
          unknown bot no_bot)
qed

text \<open>
  The stored credential is alice / secret. The right password reaches the page (status
  200); the wrong one and a request without a header are both answered with the
  challenge; without a stored credential the routine throws 500 for any request. In mode
  \<^verbatim>\<open>jwtAuth\<close> with the passphrase \<^verbatim>\<open>s3cret\<close>, the token the verifier accepts passes with
  its payload and reaches the page, a token it refuses gets 403 with its message, and a
  header without a token gets 401; both are answered with the challenge. A robot is
  refused in mode \<^verbatim>\<open>none\<close>.
\<close>

theorem webhook_authentication_gate_witness:
  "authenticate example_libs (basic_ctx (Some ''Basic YWxpY2U6c2VjcmV0'')) = Inr JUndefined
   \<and> webhook example_libs (basic_ctx (Some ''Basic YWxpY2U6c2VjcmV0''))
       = webhook_dispatch example_libs (basic_ctx (Some ''Basic YWxpY2U6c2VjcmV0''))
   \<and> answered_status (webhook example_libs (basic_ctx (Some ''Basic YWxpY2U6c2VjcmV0''))) = Some 200
   \<and> authenticate example_libs (basic_ctx (Some ''Basic YWxpY2U6d3Jvbmc=''))
       = Inl (WebhookAuthorizationError 403 None)
   \<and> webhook example_libs (basic_ctx (Some ''Basic YWxpY2U6d3Jvbmc='')) = NoWebhookResponse challenge
   \<and> authenticate example_libs (basic_ctx None) = Inl (WebhookAuthorizationError 401 None)
   \<and> webhook example_libs (basic_ctx None) = NoWebhookResponse challenge
   \<and> validateWebhookAuthentication example_libs
         ((basic_ctx None)\<lparr>getCredentials := Map.empty,
                            getRequestObject := example_request\<lparr>body := ''anything''\<rparr>\<rparr>)
       = Inl (WebhookAuthorizationError 500 (Some ''No authentication data defined on node!''))
   \<and> authenticate example_libs (jwt_ctx (Some ''Bearer e30.e30.c2ln''))
       = Inr (JObj [(''sub'', JStr ''alice'')])
   \<and> answered_status (webhook example_libs (jwt_ctx (Some ''Bearer e30.e30.c2ln''))) = Some 200
   \<and> authenticate example_libs (jwt_ctx (Some ''Bearer abc''))
       = Inl (WebhookAuthorizationError 403 (Some ''jwt malformed''))
   \<and> webhook example_libs (jwt_ctx (Some ''Bearer abc'')) = NoWebhookResponse challenge
   \<and> authenticate example_libs (jwt_ctx (Some ''Bearer''))
       = Inl (WebhookAuthorizationError 401 (Some ''No token provided''))
   \<and> authenticate example_libs (jwt_ctx None)
       = Inl (WebhookAuthorizationError 401 (Some ''No token provided''))
   \<and> webhook example_libs (jwt_ctx None) = NoWebhookResponse challenge
   \<and> authentication (getNodeParameters (bot_ctx)) = ''none''
   \<and> authenticate example_libs (bot_ctx) = Inl (WebhookAuthorizationError 403 None)
   \<and> webhook example_libs (bot_ctx) = NoWebhookResponse challenge"
proof -
  let ?right = "basic_ctx (Some ''Basic YWxpY2U6c2VjcmV0'')"
  let ?wrong = "basic_ctx (Some ''Basic YWxpY2U6d3Jvbmc='')"
  let ?unset = "(basic_ctx None)\<lparr>getCredentials := Map.empty\<rparr>"
  let ?good = "jwt_ctx (Some ''Bearer e30.e30.c2ln'')"
  let ?bad = "jwt_ctx (Some ''Bearer abc'')"
  let ?short = "jwt_ctx (Some ''Bearer'')"
  note gate = webhook_authentication_gate
  have no_filter:
    "\<not> (ignoreBots (options (getNodeParameters (basic_ctx h))) = Some True
         \<and> isbot example_libs (headers (getRequestObject (basic_ctx h)) ''user-agent''))"
    "\<not> (ignoreBots (options (getNodeParameters (jwt_ctx h))) = Some True
         \<and> isbot example_libs (headers (getRequestObject (jwt_ctx h)) ''user-agent''))" for h
    by (simp_all add: basic_ctx_def jwt_ctx_def example_ctx_def example_parameters_def
          example_options_def)
  have stored:
    "authentication (getNodeParameters (basic_ctx h)) = ''basicAuth''
       \<and> getCredentials (basic_ctx h) ''httpBasicAuth''
           = Some [''user'' \<mapsto> ''alice'', ''password'' \<mapsto> ''secret'']
       \<and> [''user'' \<mapsto> ''alice'', ''password'' \<mapsto> ''secret''] ''user'' = Some ''alice''
       \<and> ''alice'' \<noteq> []
       \<and> [''user'' \<mapsto> ''alice'', ''password'' \<mapsto> ''secret''] ''password'' = Some ''secret''
       \<and> ''secret'' \<noteq> []" for h
    by (simp add: basic_ctx_def example_ctx_def example_parameters_def)
  have provided: "basicAuth example_libs (getRequestObject (basic_ctx h)) =
      (if h = Some ''Basic YWxpY2U6c2VjcmV0'' then Some (''alice'', ''secret'')
       else if h = Some ''Basic YWxpY2U6d3Jvbmc='' then Some (''alice'', ''wrong'')
       else None)" for h
    by (simp add: basic_ctx_def example_ctx_def example_request_def example_libs_fields)
  have auth: "authenticate example_libs (basic_ctx h) =
      (if h = Some ''Basic YWxpY2U6c2VjcmV0'' then Inr JUndefined
       else if h = Some ''Basic YWxpY2U6d3Jvbmc='' then Inl (WebhookAuthorizationError 403 None)
       else Inl (WebhookAuthorizationError 401 None))" for h
    using gate [where L = example_libs and ctx = "basic_ctx h", THEN conjunct2, THEN conjunct2,
            THEN conjunct2, THEN conjunct2, THEN conjunct2, THEN conjunct2, THEN conjunct2,
            THEN conjunct2, THEN conjunct2, THEN conjunct1, rule_format, OF stored]
          gate [where L = example_libs and ctx = "basic_ctx h", THEN conjunct2, THEN conjunct2,
            THEN conjunct2, THEN conjunct2, THEN conjunct2, THEN conjunct2, THEN conjunct2,
            THEN conjunct2, THEN conjunct2, THEN conjunct2, THEN conjunct2, THEN conjunct2,
            THEN conjunct2, rule_format, OF no_filter(1)]
    by (simp add: provided)
  have jwt_stored:
    "authentication (getNodeParameters (jwt_ctx h)) = ''jwtAuth''
       \<and> getCredentials (jwt_ctx h) ''jwtAuth''
           = Some [''keyType'' \<mapsto> ''passphrase'', ''secret'' \<mapsto> ''s3cret'',
                   ''algorithm'' \<mapsto> ''HS256'']" for h
    by (simp add: jwt_ctx_def example_ctx_def example_parameters_def)
  have header: "headers (getRequestObject (jwt_ctx h)) ''authorization'' = h" for h
    by (simp add: jwt_ctx_def example_ctx_def example_request_def)
  note verdict = gate [THEN conjunct2, THEN conjunct2,
            THEN conjunct2, THEN conjunct2, THEN conjunct2, THEN conjunct2, THEN conjunct2,
            THEN conjunct2, THEN conjunct1, rule_format, OF jwt_stored]
  note passed = gate [THEN conjunct2, THEN conjunct2,
            THEN conjunct2, THEN conjunct2, THEN conjunct2, THEN conjunct2, THEN conjunct2,
            THEN conjunct2, THEN conjunct2, THEN conjunct2, THEN conjunct2, THEN conjunct2,
            THEN conjunct2, rule_format, OF no_filter(2)]
  have tokens:
    "authenticate example_libs ?good = Inr (JObj [(''sub'', JStr ''alice'')])"
    "authenticate example_libs ?bad = Inl (WebhookAuthorizationError 403 (Some ''jwt malformed''))"
    "authenticate example_libs ?short = Inl (WebhookAuthorizationError 401 (Some ''No token provided''))"
    "authenticate example_libs (jwt_ctx None) = Inl (WebhookAuthorizationError 401 (Some ''No token provided''))"
    using verdict [of example_libs "Some ''Bearer e30.e30.c2ln''"]
          verdict [of example_libs "Some ''Bearer abc''"]
          verdict [of example_libs "Some ''Bearer''"] verdict [of example_libs None]
    by (simp_all add: passed header second_def example_libs_fields)
  have unset: "authentication (getNodeParameters ?unset) = ''basicAuth''
                 \<and> getCredentials ?unset ''httpBasicAuth'' = None"
    by (simp add: basic_ctx_def example_ctx_def example_parameters_def)
  have html: "\<exists>html. generateFormHtml example_libs ?right = Inr html"
             "\<exists>html. generateFormHtml example_libs ?good = Inr html"
    by (simp_all add: page_defs falsy_def basic_ctx_def jwt_ctx_def
          example_ctx_def example_parameters_def example_options_def)
  have get: "validateResponseModeConfiguration ?right = None"
            "http_method (getRequestObject ?right) = ''GET''"
            "validateResponseModeConfiguration ?good = None"
            "http_method (getRequestObject ?good) = ''GET''"
    by (simp_all add: validateResponseModeConfiguration_def getChildNodes_def basic_ctx_def
          jwt_ctx_def example_ctx_def example_request_def example_parameters_def)
  have page: "answered_status (webhook_dispatch example_libs ?right) = Some 200"
             "answered_status (webhook_dispatch example_libs ?good) = Some 200"
    using html by (auto simp: webhook_dispatch_def get answered_status_def)
  from gate [where L = example_libs and ctx = ?right, THEN conjunct1] auth
  have right: "webhook example_libs ?right = webhook_dispatch example_libs ?right"
    by simp
  from gate [where L = example_libs and ctx = ?good, THEN conjunct1] tokens(1)
  have good: "webhook example_libs ?good = webhook_dispatch example_libs ?good"
    by simp
  from gate [where L = example_libs and ctx = ?wrong, THEN conjunct2, THEN conjunct1] auth
  have wrong: "webhook example_libs ?wrong = NoWebhookResponse challenge"
    by simp
  from gate [where L = example_libs and ctx = "basic_ctx None", THEN conjunct2, THEN conjunct1]
       auth
  have missing: "webhook example_libs (basic_ctx None) = NoWebhookResponse challenge"
    by simp
  from gate [where L = example_libs and ctx = ?bad, THEN conjunct2, THEN conjunct1] tokens(2)
  have bad: "webhook example_libs ?bad = NoWebhookResponse challenge"
    by simp
  from gate [where L = example_libs and ctx = "jwt_ctx None", THEN conjunct2, THEN conjunct1]
       tokens(4)
  have absent: "webhook example_libs (jwt_ctx None) = NoWebhookResponse challenge"
    by simp
  from gate [where L = example_libs and ctx = ?unset, THEN conjunct2, THEN conjunct2,
          THEN conjunct2, THEN conjunct2, THEN conjunct1] unset
  have no_stored: "validateWebhookAuthentication example_libs
         (?unset\<lparr>getRequestObject := example_request\<lparr>body := ''anything''\<rparr>\<rparr>)
       = Inl (WebhookAuthorizationError 500 (Some ''No authentication data defined on node!''))"
    by blast
  have robot: "ignoreBots (options (getNodeParameters (bot_ctx))) = Some True
       \<and> isbot example_libs (headers (getRequestObject (bot_ctx)) ''user-agent'')"
      and none: "authentication (getNodeParameters (bot_ctx)) = ''none''"
    by (simp_all add: bot_ctx_def example_ctx_def example_parameters_def example_options_def
          example_libs_fields)
  from gate [where L = example_libs and ctx = "bot_ctx", THEN conjunct2, THEN conjunct2,
          THEN conjunct2, THEN conjunct2, THEN conjunct2, THEN conjunct2, THEN conjunct2,
          THEN conjunct2, THEN conjunct2, THEN conjunct2, THEN conjunct2, THEN conjunct2,
          THEN conjunct1, rule_format, OF robot]
  have refused: "authenticate example_libs (bot_ctx) = Inl (WebhookAuthorizationError 403 None)"
                "webhook example_libs (bot_ctx) = NoWebhookResponse challenge"
    by simp_all
  from auth right wrong missing no_stored page tokens good bad absent none refused
  show ?thesis by simp
qed

text \<open>
  C1 as the specification states it fails: a wrong password, for which the routine throws
  403, is answered with status 401 and not 403, and a node without a stored credential,
  for which it throws 500, is not answered with status 500.
\<close>

theorem wrong_password_counterexample:
  "validateWebhookAuthentication example_libs (basic_ctx (Some ''Basic YWxpY2U6d3Jvbmc=''))
     = Inl (WebhookAuthorizationError 403 None)
   \<and> answered_status (webhook example_libs (basic_ctx (Some ''Basic YWxpY2U6d3Jvbmc=''))) = Some 401
   \<and> answered_status (webhook example_libs (basic_ctx (Some ''Basic YWxpY2U6d3Jvbmc=''))) \<noteq> Some 403
   \<and> validateWebhookAuthentication example_libs
        ((basic_ctx (Some ''Basic YWxpY2U6c2VjcmV0''))\<lparr>getCredentials := Map.empty\<rparr>)
     = Inl (WebhookAuthorizationError 500 (Some ''No authentication data defined on node!''))
   \<and> answered_status (webhook example_libs
        ((basic_ctx (Some ''Basic YWxpY2U6c2VjcmV0''))\<lparr>getCredentials := Map.empty\<rparr>)) \<noteq> Some 500"
  by (simp add: webhook_def authenticate_def validateWebhookAuthentication_def answered_status_def
        challenge_def no_auth_data_def falsy_def basic_ctx_def example_ctx_def example_request_def
        example_parameters_def example_options_def example_libs_def)

subsection \<open>C2: the outcome of a submission\<close>

text \<open>
  C2, as the code has it. Take a POST request that passes authentication and response-mode
  validation, whose body parses to a value \<open>request\<close> other than null, with a schema that
  parses and compiles, and an event schema that is unset or parses and compiles; the
  validators record at least one error for a value they reject. With \<open>P\<close> the data field
  and \<open>E\<close> the event field of the request: if \<open>P\<close> is valid and the event schema is unset
  or \<open>E\<close> is valid, the handler returns status 200 and exactly one record, whose data
  field is \<open>P\<close> as validation leaves it (with the defaults of the schema filled in);
  otherwise it answers 400 with a JSON body of a message and a non-empty list of errors
  and returns no workflow data: the errors of \<open>P\<close> when \<open>P\<close> is invalid, else those of
  \<open>E\<close>.
\<close>

theorem submission_outcome:
  assumes "authenticate L ctx = Inr v"
      and "validateResponseModeConfiguration ctx = None"
      and "http_method (getRequestObject ctx) = ''POST''"
      and "JSON_parse L (body (getRequestObject ctx)) = Some request"
      and "request \<noteq> JNull" and "request \<noteq> JUndefined"
      and "jsonSchema (getNodeParameters ctx) = Some S"
      and "JSON_parse L S = Some schema"
      and "ajv_compile L schema = Some validateData"
      and "falsy (eventJsonSchema (options (getNodeParameters ctx)))
           \<or> (\<exists>event_schema. JSON_parse L (the (eventJsonSchema (options (getNodeParameters ctx))))
                                 = Some event_schema
                  \<and> ajv_compile L event_schema = Some validateEvent)"
      and "\<not> valid (validateData (member request ''data''))
             \<Longrightarrow> errors (validateData (member request ''data'')) \<noteq> []"
      and "\<not> valid (validateEvent (member request ''event''))
             \<Longrightarrow> errors (validateEvent (member request ''event'')) \<noteq> []"
  shows "(let P = member request ''data'';
              E = member request ''event'';
              data_ok = valid (validateData P);
              event_ok = (falsy (eventJsonSchema (options (getNodeParameters ctx)))
                          \<or> valid (validateEvent E))
          in (data_ok \<and> event_ok \<longrightarrow>
                (\<exists>record. webhook L ctx = WorkflowData 200 [[record]]
                   \<and> member record ''data'' = validated (validateData P)))
           \<and> (\<not> (data_ok \<and> event_ok) \<longrightarrow>
                (\<exists>message errs. errs \<noteq> []
                   \<and> webhook L ctx = NoWebhookResponse
                        \<lparr>status = 400,
                         response_headers = [(''Content-Type'', ''application/json'')],
                         response_body = Some (JSON_stringify L
                            (JObj [(''message'', JStr message), (''errors'', JArr errs)]))\<rparr>))
           \<and> (\<not> data_ok \<longrightarrow>
                webhook L ctx = NoWebhookResponse
                  (validation_failed L ''Data validation failed'' (errors (validateData P))))
           \<and> (data_ok \<and> \<not> event_ok \<longrightarrow>
                webhook L ctx = NoWebhookResponse
                  (validation_failed L ''Event validation failed'' (errors (validateEvent E)))))"
proof -
  let ?P = "member request ''data''" and ?E = "member request ''event''"
  let ?opts = "options (getNodeParameters ctx)"
  have w: "webhook L ctx = webhook_post L ctx"
    using assms(1-3) by (simp add: webhook_def webhook_dispatch_def)
  have bad_data: "webhook L ctx = NoWebhookResponse
         (validation_failed L ''Data validation failed'' (errors (validateData ?P)))"
    if "\<not> valid (validateData ?P)"
    using that assms(4-9) by (simp add: w webhook_post_def Let_def)
  have bad_event: "webhook L ctx = NoWebhookResponse
         (validation_failed L ''Event validation failed'' (errors (validateEvent ?E)))"
    if "valid (validateData ?P)" "\<not> falsy (eventJsonSchema ?opts)" "\<not> valid (validateEvent ?E)"
    using that assms(4-10) by (auto simp: w webhook_post_def validate_event_def Let_def)
  have good: "\<exists>record. webhook L ctx = WorkflowData 200 [[record]]
                   \<and> member record ''data'' = validated (validateData ?P)"
    if "valid (validateData ?P)" "falsy (eventJsonSchema ?opts) \<or> valid (validateEvent ?E)"
    using that assms(4-10)
    by (auto simp: w webhook_post_def validate_event_def Let_def returnData_shape member_def)
  show ?thesis
    unfolding Let_def
    using bad_data bad_event good assms(11,12)
    by (auto simp: validation_failed_def)
qed

text \<open>A valid submission, one without the required property, and one with an invalid
  event.\<close>

theorem submission_outcome_witness:
  \<open>(\<exists>record. webhook example_libs (post_ctx example_options ''{"data":{"foo":1}}'' None)
                 = WorkflowData 200 [[record]]
        \<and> member record ''data'' = JObj [(''foo'', JNum 1), (''bar'', JStr ''baz'')])
   \<and> webhook example_libs (post_ctx example_options ''{"data":{}}'' None)
       = NoWebhookResponse
           (validation_failed example_libs ''Data validation failed''
              [required_error ''foo'' example_schema (JObj [(''bar'', JStr ''baz'')])])
   \<and> webhook example_libs
         (post_ctx (example_options\<lparr>eventJsonSchema := Some example_event_schema_text\<rparr>)
            ''{"data":{"foo":1},"event":{}}'' None)
       = NoWebhookResponse
           (validation_failed example_libs ''Event validation failed''
              [required_error ''action'' example_event_schema (JObj [])])\<close>
proof -
  let ?with_event = "example_options\<lparr>eventJsonSchema := Some example_event_schema_text\<rparr>"
  have passes:
    "authenticate example_libs (post_ctx opts b q) = Inr JUndefined"
    "validateResponseModeConfiguration (post_ctx opts b q) = None"
    "http_method (getRequestObject (post_ctx opts b q)) = ''POST''" for opts b q
    using example_post_passes [where opts = opts and b = b and q = q and m = "''manual''"]
    by (simp_all add: post_ctx_def example_ctx_def)
  have parsed: "JSON_parse example_libs (body (getRequestObject (post_ctx opts b q))) = example_parse b"
    for opts b q
    by (simp add: post_ctx_fields example_libs_fields)
  have schema: "jsonSchema (getNodeParameters (post_ctx opts b q)) = Some example_schema_text"
               "JSON_parse example_libs example_schema_text = Some example_schema"
    for opts b q
    by (simp_all add: post_ctx_fields example_parameters_def example_libs_fields example_parse_values)
  have no_event: "falsy (eventJsonSchema (options (getNodeParameters (post_ctx example_options b q))))
      \<or> (\<exists>event_schema.
            JSON_parse example_libs
              (the (eventJsonSchema (options (getNodeParameters (post_ctx example_options b q)))))
              = Some event_schema
            \<and> ajv_compile example_libs event_schema = Some example_validate_event)" for b q
    by (simp add: post_ctx_fields example_options_def falsy_def)
  have event: "falsy (eventJsonSchema (options (getNodeParameters (post_ctx ?with_event b q))))
      \<or> (\<exists>event_schema.
            JSON_parse example_libs
              (the (eventJsonSchema (options (getNodeParameters (post_ctx ?with_event b q)))))
              = Some event_schema
            \<and> ajv_compile example_libs event_schema = Some example_validate_event)" for b q
    by (simp add: post_ctx_fields example_libs_fields(3) example_parse_values example_compile_values)
  have configured: "example_event_schema_text \<noteq> []"
    by (simp add: example_event_schema_text_def)
  have reports: "errors (example_validate d) \<noteq> []" if "\<not> valid (example_validate d)" for d
    using that by (auto simp: example_validate_def Let_def split: jsval.splits if_splits)
  have reports_event: "errors (example_validate_event d) \<noteq> []"
    if "\<not> valid (example_validate_event d)" for d
    using that by (auto simp: example_validate_event_def split: jsval.splits if_splits)
  let ?c1 = \<open>post_ctx example_options ''{"data":{"foo":1}}'' None\<close>
  let ?c2 = \<open>post_ctx example_options ''{"data":{}}'' None\<close>
  let ?c3 = \<open>post_ctx ?with_event ''{"data":{"foo":1},"event":{}}'' None\<close>
  let ?r1 = "JObj [(''data'', JObj [(''foo'', JNum 1)])]"
  let ?r2 = "JObj [(''data'', JObj [])]"
  let ?r3 = "JObj [(''data'', JObj [(''foo'', JNum 1)]), (''event'', JObj [])]"
  have bodies:
    "JSON_parse example_libs (body (getRequestObject ?c1)) = Some ?r1"
    "JSON_parse example_libs (body (getRequestObject ?c2)) = Some ?r2"
    "JSON_parse example_libs (body (getRequestObject ?c3)) = Some ?r3"
    by (simp_all add: parsed example_parse_values)
  have objects: "JObj kvs \<noteq> JNull" "JObj kvs \<noteq> JUndefined" for kvs
    by simp_all
  have accepted: "\<exists>record. webhook example_libs ?c1 = WorkflowData 200 [[record]]
        \<and> member record ''data'' = JObj [(''foo'', JNum 1), (''bar'', JStr ''baz'')]"
    using submission_outcome
      [OF passes(1) passes(2) passes(3) bodies(1) objects schema(1) schema(2)
          example_compile_values(1) no_event reports reports_event]
    by (simp add: Let_def member_def example_validate_def post_ctx_fields example_options_def
          falsy_def)
  have rejected: "webhook example_libs ?c2
       = NoWebhookResponse
           (validation_failed example_libs ''Data validation failed''
              [required_error ''foo'' example_schema (JObj [(''bar'', JStr ''baz'')])])"
    using submission_outcome
      [OF passes(1) passes(2) passes(3) bodies(2) objects schema(1) schema(2)
          example_compile_values(1) no_event reports reports_event]
    by (simp add: Let_def member_def example_validate_def post_ctx_fields example_options_def
          falsy_def)
  have event_rejected: "webhook example_libs ?c3
       = NoWebhookResponse
           (validation_failed example_libs ''Event validation failed''
              [required_error ''action'' example_event_schema (JObj [])])"
    using submission_outcome
      [OF passes(1) passes(2) passes(3) bodies(3) objects schema(1) schema(2)
          example_compile_values(1) event reports reports_event]
    by (simp add: Let_def member_def example_validate_def example_validate_event_def
          post_ctx_fields falsy_def configured)
  from accepted rejected event_rejected show ?thesis by simp
qed

text \<open>
  C2 as the specification states it fails: the submitted data \<^verbatim>\<open>{"foo":1}\<close> is valid,
  and the record handed to the workflow holds \<^verbatim>\<open>{"foo":1,"bar":"baz"}\<close>, the data with
  the default of the schema filled in, which is not the submitted data.
\<close>

theorem defaults_counterexample:
  "JSON_parse example_libs (body (getRequestObject (post_ctx example_options ''{\"data\":{\"foo\":1}}'' None)))
     = Some (JObj [(''data'', JObj [(''foo'', JNum 1)])])
   \<and> webhook example_libs (post_ctx example_options ''{\"data\":{\"foo\":1}}'' None)
     = WorkflowData 200
         [[JObj [(''data'', JObj [(''foo'', JNum 1), (''bar'', JStr ''baz'')]),
                 (''event'', JUndefined),
                 (''submittedAt'', JStr ''2024-01-01T01:00:00.000+01:00''),
                 (''formMode'', JStr ''test'')]]]
   \<and> JObj [(''foo'', JNum 1), (''bar'', JStr ''baz'')] \<noteq> JObj [(''foo'', JNum 1)]"
  by (simp add: webhook_def authenticate_def validateWebhookAuthentication_def
        webhook_dispatch_def validateResponseModeConfiguration_def getChildNodes_def
        webhook_post_def validate_event_def returnData_def submittedAt_def formMode_def
        member_def falsy_def Let_def
        post_ctx_def example_ctx_def example_request_def example_parameters_def
        example_options_def example_libs_def example_parse_def example_schema_text_def
        example_event_schema_text_def example_schema_def example_event_schema_def
        example_validate_def)

subsection \<open>C3: the authentication routine in basicAuth mode\<close>

text \<open>
  C3. In \<^verbatim>\<open>basicAuth\<close> mode \<^verbatim>\<open>validateWebhookAuthentication\<close> throws an authorization
  error with code 500 when the stored credential is undefined or its user or password is
  falsy; otherwise with code 401 when the request has no Basic authorization header (the
  parser returns nothing); otherwise with code 403 when the name or the password differs
  from the stored one; and it returns (undefined) exactly in the remaining case, when
  both are equal to the stored ones.
\<close>

theorem validateWebhookAuthentication_basicAuth:
  assumes "authentication (getNodeParameters ctx) = ''basicAuth''"
  shows "(let result = validateWebhookAuthentication L ctx;
              stored = getCredentials ctx ''httpBasicAuth'';
              provided = basicAuth L (getRequestObject ctx);
              stored_absent = (case stored of None \<Rightarrow> True
                               | Some c \<Rightarrow> falsy (c ''user'') \<or> falsy (c ''password''))
          in (stored_absent \<longrightarrow>
                result = Inl (WebhookAuthorizationError 500 (Some ''No authentication data defined on node!'')))
           \<and> (\<not> stored_absent \<and> provided = None \<longrightarrow>
                result = Inl (WebhookAuthorizationError 401 None))
           \<and> (\<forall>c n p. \<not> stored_absent \<and> stored = Some c \<and> provided = Some (n, p)
                  \<and> (c ''user'' \<noteq> Some n \<or> c ''password'' \<noteq> Some p) \<longrightarrow>
                result = Inl (WebhookAuthorizationError 403 None))
           \<and> (\<forall>c n p. \<not> stored_absent \<and> stored = Some c \<and> provided = Some (n, p)
                  \<and> c ''user'' = Some n \<and> c ''password'' = Some p \<longrightarrow>
                result = Inr JUndefined)
           \<and> ((\<exists>v. result = Inr v) \<longrightarrow>
                (\<exists>c n p. \<not> stored_absent \<and> stored = Some c \<and> provided = Some (n, p)
                   \<and> c ''user'' = Some n \<and> c ''password'' = Some p)))"
  using assms
  by (auto simp: validateWebhookAuthentication_def Let_def no_auth_data_def falsy_def
           split: option.splits prod.splits)

text \<open>The four cases on the stored credential alice / secret.\<close>

theorem validateWebhookAuthentication_basicAuth_witness:
  "authentication (getNodeParameters (basic_ctx (Some ''Basic YWxpY2U6c2VjcmV0''))) = ''basicAuth''
   \<and> validateWebhookAuthentication example_libs (basic_ctx (Some ''Basic YWxpY2U6c2VjcmV0'')) = Inr JUndefined
   \<and> validateWebhookAuthentication example_libs (basic_ctx (Some ''Basic YWxpY2U6d3Jvbmc=''))
       = Inl (WebhookAuthorizationError 403 None)
   \<and> validateWebhookAuthentication example_libs (basic_ctx None)
       = Inl (WebhookAuthorizationError 401 None)
   \<and> validateWebhookAuthentication example_libs
         ((basic_ctx (Some ''Basic YWxpY2U6c2VjcmV0''))\<lparr>getCredentials := Map.empty\<rparr>)
       = Inl (WebhookAuthorizationError 500 (Some ''No authentication data defined on node!''))"
proof -
  have mode: "authentication (getNodeParameters (basic_ctx h)) = ''basicAuth''" for h
    by (simp add: basic_ctx_def example_ctx_def example_parameters_def)
  have mode': "authentication (getNodeParameters ((basic_ctx h)\<lparr>getCredentials := Map.empty\<rparr>)) = ''basicAuth''" for h
    by (simp add: basic_ctx_def example_ctx_def example_parameters_def)
  have stored: "getCredentials (basic_ctx h) ''httpBasicAuth''
                  = Some [''user'' \<mapsto> ''alice'', ''password'' \<mapsto> ''secret'']" for h
    by (simp add: basic_ctx_def example_ctx_def)
  have provided: "basicAuth example_libs (getRequestObject (basic_ctx h)) =
          (if h = Some ''Basic YWxpY2U6c2VjcmV0'' then Some (''alice'', ''secret'')
           else if h = Some ''Basic YWxpY2U6d3Jvbmc='' then Some (''alice'', ''wrong'') else None)" for h
    by (simp add: basic_ctx_def example_ctx_def example_request_def example_libs_def)
  have right: "validateWebhookAuthentication example_libs (basic_ctx (Some ''Basic YWxpY2U6c2VjcmV0'')) = Inr JUndefined"
    using validateWebhookAuthentication_basicAuth
            [where L = example_libs and ctx = "basic_ctx (Some ''Basic YWxpY2U6c2VjcmV0'')", OF mode]
    by (simp add: Let_def stored provided falsy_def)
  have wrong: "validateWebhookAuthentication example_libs (basic_ctx (Some ''Basic YWxpY2U6d3Jvbmc=''))
                 = Inl (WebhookAuthorizationError 403 None)"
    using validateWebhookAuthentication_basicAuth
            [where L = example_libs and ctx = "basic_ctx (Some ''Basic YWxpY2U6d3Jvbmc='')", OF mode]
    by (simp add: Let_def stored provided falsy_def)
  have missing: "validateWebhookAuthentication example_libs (basic_ctx None)
                 = Inl (WebhookAuthorizationError 401 None)"
    using validateWebhookAuthentication_basicAuth
            [where L = example_libs and ctx = "basic_ctx None", OF mode]
    by (simp add: Let_def stored provided falsy_def)
  have unset: "validateWebhookAuthentication example_libs
         ((basic_ctx (Some ''Basic YWxpY2U6c2VjcmV0''))\<lparr>getCredentials := Map.empty\<rparr>)
       = Inl (WebhookAuthorizationError 500 (Some ''No authentication data defined on node!''))"
    using validateWebhookAuthentication_basicAuth
            [where L = example_libs
               and ctx = "(basic_ctx (Some ''Basic YWxpY2U6c2VjcmV0''))\<lparr>getCredentials := Map.empty\<rparr>",
             OF mode']
    by (simp add: Let_def)
  from mode right wrong missing unset show ?thesis by simp
qed

subsection \<open>C4: the bot filter\<close>

text \<open>
  C4, as the code has it. When \<^verbatim>\<open>ignoreBots\<close> is set and the user-agent header is a
  bot's, the gate throws an authorization error with code 403 before the authentication
  routine is called, and the handler answers it with HTTP status 401, the Basic challenge
  and no body: no page is sent. The stored credentials and the authentication mode do not
  change the answer.
\<close>

theorem bot_request_rejected:
  assumes "ignoreBots (options (getNodeParameters ctx)) = Some True"
      and "isbot L (headers (getRequestObject ctx) ''user-agent'')"
  shows "authenticate L ctx = Inl (WebhookAuthorizationError 403 None)
       \<and> webhook L ctx = NoWebhookResponse challenge
       \<and> status challenge = 401 \<and> response_body challenge = None
       \<and> webhook L (ctx\<lparr>getCredentials := stored\<rparr>) = webhook L ctx
       \<and> webhook L (ctx\<lparr>getNodeParameters := (getNodeParameters ctx)\<lparr>authentication := a\<rparr>\<rparr>)
           = webhook L ctx"
  using assms by (simp add: webhook_def authenticate_def challenge_def)

text \<open>A crawler is turned away, also when the node asks for Basic authentication.\<close>

theorem bot_request_rejected_witness:
  "ignoreBots (options (getNodeParameters bot_ctx)) = Some True
   \<and> isbot example_libs (headers (getRequestObject bot_ctx) ''user-agent'')
   \<and> authenticate example_libs bot_ctx = Inl (WebhookAuthorizationError 403 None)
   \<and> webhook example_libs bot_ctx = NoWebhookResponse challenge
   \<and> webhook example_libs
        (bot_ctx\<lparr>getNodeParameters := (getNodeParameters bot_ctx)\<lparr>authentication := ''basicAuth''\<rparr>\<rparr>)
       = NoWebhookResponse challenge
   \<and> response_body challenge = None"
proof -
  have ignore: "ignoreBots (options (getNodeParameters bot_ctx)) = Some True"
    by (simp add: bot_ctx_def example_ctx_def)
  have bot: "isbot example_libs (headers (getRequestObject bot_ctx) ''user-agent'')"
    by (simp add: bot_ctx_def example_ctx_def example_libs_fields)
  from bot_request_rejected [where L = example_libs and ctx = bot_ctx and a = "''basicAuth''",
                             OF ignore bot]
       ignore bot
  show ?thesis by simp
qed

text \<open>
  C4 as the specification states it fails: the crawler is answered with status 401, not
  403.
\<close>

theorem bot_counterexample:
  "ignoreBots (options (getNodeParameters bot_ctx)) = Some True
   \<and> isbot example_libs (headers (getRequestObject bot_ctx) ''user-agent'')
   \<and> answered_status (webhook example_libs bot_ctx) = Some 401
   \<and> answered_status (webhook example_libs bot_ctx) \<noteq> Some 403"
  by (simp add: webhook_def authenticate_def answered_status_def
        challenge_def bot_ctx_def example_ctx_def example_request_def
        example_parameters_def example_options_def example_libs_def)

subsection \<open>C5: the response-mode validator\<close>

text \<open>
  C5. \<^verbatim>\<open>validateResponseModeConfiguration\<close> throws exactly when the response mode is
  \<^verbatim>\<open>responseNode\<close> and no Respond to Webhook node is connected, or such a node is
  connected, the mode is another one and the node's type version is at most 2.1, or such a
  node is connected and the type version is above 2.1. It runs right after
  authentication: when authentication passes and the validator throws, the handler throws
  that error, whatever the method and the body of the request are.
\<close>

theorem validateResponseModeConfiguration_raises:
  "(let mode = (case responseMode (getNodeParameters ctx) of None \<Rightarrow> ''onReceived'' | Some m \<Rightarrow> m);
        connected = (\<exists>n \<in> set (childNodes ctx). node_type n = ''n8n-nodes-base.respondToWebhook'');
        version = typeVersion (getNode ctx)
    in (validateResponseModeConfiguration ctx \<noteq> None) =
         ((mode = ''responseNode'' \<and> \<not> connected)
          \<or> (connected \<and> mode \<noteq> ''responseNode'' \<and> version \<le> 21 / 10)
          \<or> (connected \<and> version > 21 / 10)))
   \<and> (\<forall>x e. authenticate L ctx = Inr x \<longrightarrow> validateResponseModeConfiguration ctx = Some e
          \<longrightarrow> webhook L ctx = Thrown e)"
  by (auto simp: validateResponseModeConfiguration_def respond_connected_iff Let_def
                 webhook_def webhook_dispatch_def split: option.splits)

text \<open>A POST whose body is not JSON, in mode \<^verbatim>\<open>responseNode\<close> with nothing connected:
  the configuration error is thrown, and the body is never parsed.\<close>

theorem validateResponseModeConfiguration_raises_witness:
  "authenticate example_libs
      ((post_ctx example_options ''not json'' None)
         \<lparr>getNodeParameters := example_parameters\<lparr>responseMode := Some ''responseNode''\<rparr>\<rparr>)
     = Inr JUndefined
   \<and> validateResponseModeConfiguration
      ((post_ctx example_options ''not json'' None)
         \<lparr>getNodeParameters := example_parameters\<lparr>responseMode := Some ''responseNode''\<rparr>\<rparr>)
     = Some (NodeOperationError ''No Respond to Webhook node found in the workflow'')
   \<and> webhook example_libs
      ((post_ctx example_options ''not json'' None)
         \<lparr>getNodeParameters := example_parameters\<lparr>responseMode := Some ''responseNode''\<rparr>\<rparr>)
     = Thrown (NodeOperationError ''No Respond to Webhook node found in the workflow'')"
proof -
  let ?ctx = "(post_ctx example_options ''not json'' None)
         \<lparr>getNodeParameters := example_parameters\<lparr>responseMode := Some ''responseNode''\<rparr>\<rparr>"
  have passes: "authenticate example_libs ?ctx = Inr JUndefined"
    by (simp add: authenticate_def validateWebhookAuthentication_def post_ctx_def
                  example_ctx_def example_parameters_def example_options_def)
  have raises: "validateResponseModeConfiguration ?ctx
                  = Some (NodeOperationError ''No Respond to Webhook node found in the workflow'')"
    by (simp add: validateResponseModeConfiguration_def getChildNodes_def post_ctx_def
                  example_ctx_def example_parameters_def)
  from validateResponseModeConfiguration_raises [where L = example_libs and ctx = ?ctx]
       passes raises
  have "webhook example_libs ?ctx
          = Thrown (NodeOperationError ''No Respond to Webhook node found in the workflow'')"
    by simp
  with passes raises show ?thesis by simp
qed

subsection \<open>C6: submittedAt and formMode\<close>

text \<open>
  C6. Whenever the handler returns workflow data, it is one record that has the key
  \<^verbatim>\<open>submittedAt\<close>, holding the instant of the request rendered by \<^verbatim>\<open>toISO\<close> in the
  workflow's timezone when \<^verbatim>\<open>useWorkflowTimezone\<close> is true or unset and in UTC when it
  is false, and the key \<^verbatim>\<open>formMode\<close>, holding \<^verbatim>\<open>test\<close> when the execution mode is
  \<^verbatim>\<open>manual\<close> and \<^verbatim>\<open>production\<close> otherwise. Both values are given by the options,
  the timezone, the clock and the mode of the host; nothing of the request enters them:
  any other request that is submitted in the same context gets the same two values.
\<close>

theorem submission_record_fields:
  assumes "webhook L ctx = WorkflowData st wd"
  shows "\<exists>record. wd = [[record]]
      \<and> ''submittedAt'' \<in> set (object_keys record)
      \<and> member record ''submittedAt''
          = toISO L (now ctx)
              (if useWorkflowTimezone (options (getNodeParameters ctx)) = Some False
               then ''UTC'' else getTimezone ctx)
      \<and> ''formMode'' \<in> set (object_keys record)
      \<and> member record ''formMode''
          = JStr (if getMode ctx = ''manual'' then ''test'' else ''production'')
      \<and> (\<forall>r st' wd'. webhook L (ctx\<lparr>getRequestObject := r\<rparr>) = WorkflowData st' wd' \<longrightarrow>
             (\<exists>record'. wd' = [[record']]
                \<and> member record' ''submittedAt'' = member record ''submittedAt''
                \<and> member record' ''formMode'' = member record ''formMode''))"
proof -
  from webhook_emits [OF assms] obtain d e where wd: "wd = [returnData L ctx d e]" by blast
  have tz: "submittedAt L c = toISO L (now c)
              (if useWorkflowTimezone (options (getNodeParameters c)) = Some False
               then ''UTC'' else getTimezone c)" for c
    by (auto simp: submittedAt_def Let_def split: option.splits)
  have other: "\<exists>record'. wd' = [[record']]
                \<and> member record' ''submittedAt'' = submittedAt L ctx
                \<and> member record' ''formMode'' = JStr (formMode ctx)"
    if "webhook L (ctx\<lparr>getRequestObject := r\<rparr>) = WorkflowData st' wd'" for r st' wd'
  proof -
    from webhook_emits [OF that] obtain d' e'
      where "wd' = [returnData L (ctx\<lparr>getRequestObject := r\<rparr>) d' e']" by blast
    then show ?thesis
      by (simp add: returnData_shape member_def submittedAt_def formMode_def)
  qed
  show ?thesis
    using other
    by (simp add: wd returnData_shape object_keys_def member_def tz [symmetric] formMode_def)
qed

text \<open>The same submission in a manual run with the workflow's timezone, and in a
  production run with UTC.\<close>

theorem submission_record_fields_witness:
  \<open>(\<exists>record. webhook example_libs (post_ctx example_options ''{"data":{"foo":1}}'' None)
                 = WorkflowData 200 [[record]]
        \<and> member record ''submittedAt'' = JStr ''2024-01-01T01:00:00.000+01:00''
        \<and> member record ''formMode'' = JStr ''test'')
   \<and> (\<exists>record. webhook example_libs
                   ((post_ctx (example_options\<lparr>useWorkflowTimezone := Some False\<rparr>)
                       ''{"data":{"foo":1}}'' None)\<lparr>getMode := ''webhook''\<rparr>)
                 = WorkflowData 200 [[record]]
        \<and> member record ''submittedAt'' = JStr ''2024-01-01T00:00:00.000Z''
        \<and> member record ''formMode'' = JStr ''production'')\<close>
proof -
  let ?a = \<open>(post_ctx example_options ''{"data":{"foo":1}}'' None)\<lparr>getMode := ''manual''\<rparr>\<close>
  let ?b = \<open>(post_ctx (example_options\<lparr>useWorkflowTimezone := Some False\<rparr>)
               ''{"data":{"foo":1}}'' None)\<lparr>getMode := ''webhook''\<rparr>\<close>
  have same: \<open>?a = post_ctx example_options ''{"data":{"foo":1}}'' None\<close>
    by (simp add: post_ctx_def example_ctx_def)
  have a: "webhook example_libs ?a = WorkflowData 200
             [returnData example_libs ?a (JObj [(''foo'', JNum 1), (''bar'', JStr ''baz'')]) JUndefined]"
    by (rule example_submission) (simp add: example_options_def)
  have b: "webhook example_libs ?b = WorkflowData 200
             [returnData example_libs ?b (JObj [(''foo'', JNum 1), (''bar'', JStr ''baz'')]) JUndefined]"
    by (rule example_submission) (simp add: example_options_def)
  from submission_record_fields [OF a] a
  have "\<exists>record. webhook example_libs ?a = WorkflowData 200 [[record]]
        \<and> member record ''submittedAt'' = JStr ''2024-01-01T01:00:00.000+01:00''
        \<and> member record ''formMode'' = JStr ''test''"
    by (auto simp: post_ctx_fields example_parameters_def example_options_def example_libs_fields)
  moreover
  from submission_record_fields [OF b] b
  have "\<exists>record. webhook example_libs ?b = WorkflowData 200 [[record]]
        \<and> member record ''submittedAt'' = JStr ''2024-01-01T00:00:00.000Z''
        \<and> member record ''formMode'' = JStr ''production''"
    by (auto simp: post_ctx_fields example_parameters_def example_options_def example_libs_fields)
  ultimately show ?thesis unfolding same by simp
qed

subsection \<open>C7: the default text of the submitted page\<close>

text \<open>
  C7, as the code has it. Whenever the custom style can be embedded, the generated page
  holds, right after the header of the submitted card, the paragraph with the default text
  \<^verbatim>\<open>Your response has been recorded\<close> when no text is configured: when
  \<^verbatim>\<open>respondWithOptions\<close> is not set and the option \<^verbatim>\<open>formSubmittedText\<close> is
  undefined, or when \<^verbatim>\<open>respondWithOptions\<close> has values and \<^verbatim>\<open>respondWith\<close> is not
  \<^verbatim>\<open>text\<close> or the text of the values is undefined. Otherwise it holds the paragraph
  with the configured text, and no paragraph when that text is empty. A redirect does not
  keep the default away: with \<^verbatim>\<open>respondWith\<close> equal to \<^verbatim>\<open>redirect\<close> the page holds the
  default text. When \<^verbatim>\<open>respondWithOptions\<close> is set without values, no page is generated:
  a TypeError is thrown.
\<close>

theorem default_text_applied:
  assumes "falsy (customStyle (options (getNodeParameters ctx)))
           \<or> sanitizeCustomCss L (customStyle (options (getNodeParameters ctx))) \<noteq> None"
  shows \<open>(let opts = options (getNodeParameters ctx);
              holds = (\<lambda>t. \<exists>after. generateFormHtml L ctx =
                        Inr (template_0 @ custom_css_slot L ctx @ template_1
                           @ (if t = [] then [] else ''<p id='submitted-content'>
              '' @ t @ ''
            </p>'')
                           @ template_2 @ after))
          in (respondWithOptions opts = None \<and> text_option opts = None
                \<longrightarrow> holds ''Your response has been recorded'')
           \<and> (\<forall>t. respondWithOptions opts = None \<and> text_option opts = Some t \<longrightarrow> holds t)
           \<and> (\<forall>v. respondWithOptions opts = Some (Some v)
                    \<and> (respondWith v \<noteq> ''text'' \<or> formSubmittedText v = None)
                \<longrightarrow> holds ''Your response has been recorded'')
           \<and> (\<forall>v t. respondWithOptions opts = Some (Some v)
                    \<and> respondWith v = ''text'' \<and> formSubmittedText v = Some t
                \<longrightarrow> holds t)
           \<and> (\<forall>v. respondWithOptions opts = Some (Some v) \<and> respondWith v = ''redirect''
                \<longrightarrow> holds ''Your response has been recorded'')
           \<and> (respondWithOptions opts = Some None \<longrightarrow> generateFormHtml L ctx = Inl TypeError))\<close>
proof -
  let ?opts = "options (getNodeParameters ctx)"
  have page: \<open>\<exists>after. generateFormHtml L ctx =
                Inr (template_0 @ custom_css_slot L ctx @ template_1
                   @ (if (case configuredText of None \<Rightarrow> ''Your response has been recorded'' | Some t \<Rightarrow> t) = []
                      then []
                      else ''<p id='submitted-content'>
              ''
                           @ (case configuredText of None \<Rightarrow> ''Your response has been recorded'' | Some t \<Rightarrow> t)
                           @ ''
            </p>'')
                   @ template_2 @ after)\<close>
    if "configured_response ?opts = Inr (configuredText, configuredRedirect)"
    for configuredText configuredRedirect
  proof -
    from generateFormHtml_page [OF that assms] obtain after where
      "generateFormHtml L ctx =
         Inr (template_0 @ custom_css_slot L ctx @ template_1
            @ submitted_content_slot
                (case configuredText of None \<Rightarrow> ''Your response has been recorded'' | Some t \<Rightarrow> t)
            @ template_2
            @ (redirect_slot (if isFormConnected L (childNodes ctx) then None else configuredRedirect)
               @ template_3
               @ (if isFormConnected L (childNodes ctx)
                     \<or> responseMode (getNodeParameters ctx) = Some ''responseNode''
                  then ''true'' else ''false'')
               @ template_4 @ after))"
      by auto
    then show ?thesis
      unfolding submitted_content_slot_def by blast
  qed
  have unset: "configured_response ?opts = Inr (text_option ?opts, None)"
    if "respondWithOptions ?opts = None"
    using that by (simp add: configured_response_def)
  have given: "configured_response ?opts =
                 Inr (if respondWith v = ''text'' then formSubmittedText v else None,
                      if respondWith v = ''redirect'' then redirectUrl v else None)"
    if "respondWithOptions ?opts = Some (Some v)" for v
    using that by (simp add: configured_response_def)
  have thrown: "generateFormHtml L ctx = Inl TypeError"
    if "respondWithOptions ?opts = Some None"
    using that by (simp add: generateFormHtml_throws)
  show ?thesis
    unfolding Let_def
  proof (intro conjI allI impI)
    assume "respondWithOptions ?opts = None \<and> text_option ?opts = None"
    with page [OF unset] show \<open>\<exists>after. generateFormHtml L ctx =
        Inr (template_0 @ custom_css_slot L ctx @ template_1
           @ (if ''Your response has been recorded'' = [] then []
              else ''<p id='submitted-content'>
              '' @ ''Your response has been recorded'' @ ''
            </p>'')
           @ template_2 @ after)\<close>
      by (simp cong: if_cong)
  next
    fix t assume "respondWithOptions ?opts = None \<and> text_option ?opts = Some t"
    with page [OF unset] show \<open>\<exists>after. generateFormHtml L ctx =
        Inr (template_0 @ custom_css_slot L ctx @ template_1
           @ (if t = [] then [] else ''<p id='submitted-content'>
              '' @ t @ ''
            </p>'')
           @ template_2 @ after)\<close>
      by (simp cong: if_cong)
  next
    fix v assume "respondWithOptions ?opts = Some (Some v)
                    \<and> (respondWith v \<noteq> ''text'' \<or> formSubmittedText v = None)"
    with page [OF given] show \<open>\<exists>after. generateFormHtml L ctx =
        Inr (template_0 @ custom_css_slot L ctx @ template_1
           @ (if ''Your response has been recorded'' = [] then []
              else ''<p id='submitted-content'>
              '' @ ''Your response has been recorded'' @ ''
            </p>'')
           @ template_2 @ after)\<close>
      by (cases "respondWith v = ''text''") auto
  next
    fix v t assume "respondWithOptions ?opts = Some (Some v)
                    \<and> respondWith v = ''text'' \<and> formSubmittedText v = Some t"
    with page [OF given] show \<open>\<exists>after. generateFormHtml L ctx =
        Inr (template_0 @ custom_css_slot L ctx @ template_1
           @ (if t = [] then [] else ''<p id='submitted-content'>
              '' @ t @ ''
            </p>'')
           @ template_2 @ after)\<close>
      by auto
  next
    fix v assume "respondWithOptions ?opts = Some (Some v) \<and> respondWith v = ''redirect''"
    with page [OF given] show \<open>\<exists>after. generateFormHtml L ctx =
        Inr (template_0 @ custom_css_slot L ctx @ template_1
           @ (if ''Your response has been recorded'' = [] then []
              else ''<p id='submitted-content'>
              '' @ ''Your response has been recorded'' @ ''
            </p>'')
           @ template_2 @ after)\<close>
      by auto
  next
    assume "respondWithOptions ?opts = Some None"
    then show "generateFormHtml L ctx = Inl TypeError" by (rule thrown)
  qed
qed

text \<open>
  The pages of four configurations: a redirect, a custom text, the empty text, and no
  options at all; and the error of an option without values.
\<close>

theorem default_text_applied_witness:
  \<open>(\<exists>after. generateFormHtml example_libs (redirect_ctx []) =
        Inr (template_0 @ template_1
           @ ''<p id='submitted-content'>
              '' @ ''Your response has been recorded'' @ ''
            </p>''
           @ template_2 @ after))
   \<and> (\<exists>after. generateFormHtml example_libs
                  (example_ctx\<lparr>getNodeParameters :=
                     example_parameters\<lparr>options := example_options\<lparr>text_option := Some ''Thank you''\<rparr>\<rparr>\<rparr>) =
        Inr (template_0 @ template_1
           @ ''<p id='submitted-content'>
              '' @ ''Thank you'' @ ''
            </p>''
           @ template_2 @ after))
   \<and> (\<exists>after. generateFormHtml example_libs
                  (example_ctx\<lparr>getNodeParameters :=
                     example_parameters\<lparr>options := example_options\<lparr>text_option := Some []\<rparr>\<rparr>\<rparr>) =
        Inr (template_0 @ template_1 @ template_2 @ after))
   \<and> (\<exists>after. generateFormHtml example_libs example_ctx =
        Inr (template_0 @ template_1
           @ ''<p id='submitted-content'>
              '' @ ''Your response has been recorded'' @ ''
            </p>''
           @ template_2 @ after))
   \<and> generateFormHtml example_libs
         (example_ctx\<lparr>getNodeParameters :=
            example_parameters\<lparr>options := example_options\<lparr>respondWithOptions := Some None\<rparr>\<rparr>\<rparr>)
       = Inl TypeError\<close>
proof -
  let ?custom = "\<lambda>t. example_ctx\<lparr>getNodeParameters :=
            example_parameters\<lparr>options := example_options\<lparr>text_option := Some t\<rparr>\<rparr>\<rparr>"
  let ?broken = "example_ctx\<lparr>getNodeParameters :=
            example_parameters\<lparr>options := example_options\<lparr>respondWithOptions := Some None\<rparr>\<rparr>\<rparr>"
  have style:
    "falsy (customStyle (options (getNodeParameters (redirect_ctx []))))
       \<or> sanitizeCustomCss example_libs (customStyle (options (getNodeParameters (redirect_ctx [])))) \<noteq> None"
    "falsy (customStyle (options (getNodeParameters (?custom t))))
       \<or> sanitizeCustomCss example_libs (customStyle (options (getNodeParameters (?custom t)))) \<noteq> None"
    "falsy (customStyle (options (getNodeParameters example_ctx)))
       \<or> sanitizeCustomCss example_libs (customStyle (options (getNodeParameters example_ctx))) \<noteq> None"
    "falsy (customStyle (options (getNodeParameters ?broken)))
       \<or> sanitizeCustomCss example_libs (customStyle (options (getNodeParameters ?broken))) \<noteq> None"
    for t
    by (simp_all add: redirect_ctx_def example_ctx_def example_parameters_def example_options_def
          falsy_def)
  have css: "custom_css_slot example_libs (redirect_ctx []) = []"
            "custom_css_slot example_libs (?custom t) = []"
            "custom_css_slot example_libs example_ctx = []" for t
    by (simp_all add: custom_css_slot_def redirect_ctx_def example_ctx_def example_parameters_def
          example_options_def example_libs_fields falsy_def)
  have redirect: \<open>\<exists>after. generateFormHtml example_libs (redirect_ctx []) =
        Inr (template_0 @ template_1
           @ ''<p id='submitted-content'>
              '' @ ''Your response has been recorded'' @ ''
            </p>''
           @ template_2 @ after)\<close>
    using default_text_applied [where L = example_libs and ctx = "redirect_ctx []", OF style(1)]
    by (simp add: Let_def css) (simp add: redirect_ctx_def example_ctx_def example_options_def)
  have custom: \<open>\<exists>after. generateFormHtml example_libs (?custom ''Thank you'') =
        Inr (template_0 @ template_1
           @ ''<p id='submitted-content'>
              '' @ ''Thank you'' @ ''
            </p>''
           @ template_2 @ after)\<close>
    using default_text_applied [where L = example_libs and ctx = "?custom ''Thank you''", OF style(2)]
    by (simp add: Let_def css) (simp add: example_ctx_def example_options_def)
  have empty: \<open>\<exists>after. generateFormHtml example_libs (?custom []) =
        Inr (template_0 @ template_1 @ template_2 @ after)\<close>
    using default_text_applied [where L = example_libs and ctx = "?custom []", OF style(2)]
    by (simp add: Let_def css) (simp add: example_ctx_def example_options_def)
  have unset: \<open>\<exists>after. generateFormHtml example_libs example_ctx =
        Inr (template_0 @ template_1
           @ ''<p id='submitted-content'>
              '' @ ''Your response has been recorded'' @ ''
            </p>''
           @ template_2 @ after)\<close>
    using default_text_applied [where L = example_libs and ctx = example_ctx, OF style(3)]
    by (simp add: Let_def css)
       (simp add: example_ctx_def example_parameters_def example_options_def)
  have broken: "generateFormHtml example_libs ?broken = Inl TypeError"
    using default_text_applied [where L = example_libs and ctx = ?broken, OF style(4)]
    by (simp add: Let_def)
  from redirect custom empty unset broken
  show ?thesis by (intro conjI)
qed

text \<open>
  C7 as the specification states it fails: with a redirect to
  \<^verbatim>\<open>https://example.com\<close> configured and no form connected, the page has the redirect
  link and the default text.
\<close>

theorem redirect_default_text_counterexample:
  \<open>respondWithOptions (options (getNodeParameters (redirect_ctx [])))
     = Some (Some \<lparr>respondWith = ''redirect'', formSubmittedText = None,
                    redirectUrl = Some ''https://example.com''\<rparr>)
   \<and> generateFormHtml example_libs (redirect_ctx []) =
       Inr (template_0
          @ template_1 @ ''<p id='submitted-content'>
              '' @ ''Your response has been recorded'' @ ''
            </p>''
          @ template_2 @ (''<a id='redirectUrl' href='' @ [CHR 0x27]) @ ''https://example.com'' @ ''' style='display: none;'></a>''
          @ template_3 @ ''false''
          @ template_4 @ parameter_slot example_libs ''data'' (Some ''{}'')
          @ template_5 @ parameter_slot example_libs ''schema'' (Some example_schema_text)
          @ template_6 @ parameter_slot example_libs ''uischema'' (Some ''{}'')
          @ template_7 @ parameter_slot example_libs ''config'' (Some ''{}'')
          @ template_8 @ template_9 @ template_10 @ template_11 @ template_12)\<close>
  by (simp add: page_defs option_slot_def falsy_def isFormConnected_def getChildNodes_def
        redirect_ctx_def example_ctx_def example_parameters_def example_options_def
        example_libs_fields)

subsection \<open>C8: the page is a function of the node configuration\<close>

text \<open>
  C8. Two contexts with the same node parameters (options included) and the same connected
  nodes give the same result of \<^verbatim>\<open>generateFormHtml\<close>: the same page, character for
  character, or the same error. The request, the credentials, the timezone, the execution
  mode and the clock may differ. When the node is the same too, two GET requests that have
  passed the gate get the same answer.
\<close>

theorem generateFormHtml_deterministic:
  assumes "getNodeParameters ctx1 = getNodeParameters ctx2"
      and "childNodes ctx1 = childNodes ctx2"
  shows "generateFormHtml L ctx1 = generateFormHtml L ctx2
       \<and> (getNode ctx1 = getNode ctx2
            \<and> http_method (getRequestObject ctx1) = ''GET''
            \<and> http_method (getRequestObject ctx2) = ''GET''
            \<longrightarrow> webhook_dispatch L ctx1 = webhook_dispatch L ctx2)"
proof -
  have same: "custom_style_slot L ctx1 = custom_style_slot L ctx2"
       "custom_css_slot L ctx1 = custom_css_slot L ctx2"
       "readonly_slot ctx1 = readonly_slot ctx2"
       "getChildNodes ctx1 True = getChildNodes ctx2 True"
    using assms
    by (simp_all add: custom_style_slot_def custom_css_slot_def readonly_slot_def
          getChildNodes_def)
  have page: "generateFormHtml L ctx1 = generateFormHtml L ctx2"
    unfolding generateFormHtml_def by (simp only: same assms)
  have validator: "validateResponseModeConfiguration ctx1 = validateResponseModeConfiguration ctx2"
    if "getNode ctx1 = getNode ctx2"
    unfolding validateResponseModeConfiguration_def getChildNodes_def
    by (simp only: that assms)
  have answer: "webhook_dispatch L ctx1 = webhook_dispatch L ctx2"
    if "getNode ctx1 = getNode ctx2"
       "http_method (getRequestObject ctx1) = ''GET''"
       "http_method (getRequestObject ctx2) = ''GET''"
    by (cases "validateResponseModeConfiguration ctx2")
       (simp_all add: webhook_dispatch_def page validator [OF that(1)] that(2,3))
  from page answer show ?thesis by blast
qed

text \<open>Two GET requests at different instants, with different queries, modes and
  timezones.\<close>

theorem generateFormHtml_deterministic_witness:
  "getNodeParameters example_ctx
     = getNodeParameters
         (example_ctx\<lparr>getRequestObject := example_request\<lparr>query := Some [(''ref'', JStr ''mail'')]\<rparr>,
                       getTimezone := ''UTC'', getMode := ''webhook'', now := 0\<rparr>)
   \<and> childNodes example_ctx
     = childNodes
         (example_ctx\<lparr>getRequestObject := example_request\<lparr>query := Some [(''ref'', JStr ''mail'')]\<rparr>,
                       getTimezone := ''UTC'', getMode := ''webhook'', now := 0\<rparr>)
   \<and> query (getRequestObject example_ctx) \<noteq> Some [(''ref'', JStr ''mail'')]
   \<and> generateFormHtml example_libs example_ctx
     = generateFormHtml example_libs
         (example_ctx\<lparr>getRequestObject := example_request\<lparr>query := Some [(''ref'', JStr ''mail'')]\<rparr>,
                       getTimezone := ''UTC'', getMode := ''webhook'', now := 0\<rparr>)
   \<and> webhook_dispatch example_libs example_ctx
     = webhook_dispatch example_libs
         (example_ctx\<lparr>getRequestObject := example_request\<lparr>query := Some [(''ref'', JStr ''mail'')]\<rparr>,
                       getTimezone := ''UTC'', getMode := ''webhook'', now := 0\<rparr>)"
proof -
  let ?other = "example_ctx\<lparr>getRequestObject := example_request\<lparr>query := Some [(''ref'', JStr ''mail'')]\<rparr>,
                       getTimezone := ''UTC'', getMode := ''webhook'', now := 0\<rparr>"
  have parameters: "getNodeParameters example_ctx = getNodeParameters ?other"
    by simp
  have nodes: "childNodes example_ctx = childNodes ?other"
    by simp
  have get: "getNode example_ctx = getNode ?other"
            "http_method (getRequestObject example_ctx) = ''GET''"
            "http_method (getRequestObject ?other) = ''GET''"
    by (simp_all add: example_ctx_def example_request_def)
  have differ: "query (getRequestObject example_ctx) \<noteq> Some [(''ref'', JStr ''mail'')]"
    by (simp add: example_ctx_def example_request_def)
  from generateFormHtml_deterministic [where L = example_libs, OF parameters nodes] get
  have page: "generateFormHtml example_libs example_ctx = generateFormHtml example_libs ?other"
   and answer: "webhook_dispatch example_libs example_ctx = webhook_dispatch example_libs ?other"
    by blast+
  show ?thesis
    by (intro conjI parameters nodes differ page answer)
qed

subsection \<open>C9: a connected form takes over the response\<close>

text \<open>
  C9. When a form node is connected downstream, or a wait node whose \<^verbatim>\<open>resume\<close>
  parameter is \<^verbatim>\<open>form\<close>, the page is generated with response mode
  \<^verbatim>\<open>responseNode\<close> (the hidden input \<^verbatim>\<open>useResponseData\<close> is \<^verbatim>\<open>true\<close>) and without
  a redirect link, whatever redirect is configured: in the page, nothing stands between
  the static text before the link's placeholder and the static text after it. The page is
  generated whenever \<^verbatim>\<open>respondWithOptions\<close> is unset or has values and the custom style can
  be embedded; in the other configurations \<^verbatim>\<open>generateFormHtml\<close> throws a TypeError.
\<close>

theorem form_connected_page:
  assumes "\<exists>n \<in> set (childNodes ctx). node_type n = FORM_NODE_TYPE L
             \<or> (node_type n = WAIT_NODE_TYPE L
                 \<and> (\<exists>p. parameters n = Some p \<and> p ''resume'' = Some (JStr ''form'')))"
  shows "(let opts = options (getNodeParameters ctx);
              throws = (respondWithOptions opts = Some None
                        \<or> (\<not> falsy (customStyle opts)
                            \<and> sanitizeCustomCss L (customStyle opts) = None))
          in (throws \<longrightarrow> generateFormHtml L ctx = Inl TypeError)
           \<and> (\<not> throws \<longrightarrow>
                (\<exists>shown after. generateFormHtml L ctx =
                    Inr (template_0 @ custom_css_slot L ctx
                       @ template_1 @ submitted_content_slot shown
                       @ template_2
                       @ template_3 @ ''true''
                       @ template_4 @ after))))"
proof -
  let ?opts = "options (getNodeParameters ctx)"
  have connected: "isFormConnected L (childNodes ctx)"
    using assms by (simp add: isFormConnected_iff)
  have page: "\<exists>shown after. generateFormHtml L ctx =
                    Inr (template_0 @ custom_css_slot L ctx
                       @ template_1 @ submitted_content_slot shown
                       @ template_2
                       @ template_3 @ ''true''
                       @ template_4 @ after)"
    if given: "respondWithOptions ?opts \<noteq> Some None"
      and style: "falsy (customStyle ?opts) \<or> sanitizeCustomCss L (customStyle ?opts) \<noteq> None"
  proof -
    from given have "\<exists>configuredText configuredRedirect.
        configured_response ?opts = Inr (configuredText, configuredRedirect)"
      by (simp add: configured_response_def split: option.splits)
    then obtain configuredText configuredRedirect
      where "configured_response ?opts = Inr (configuredText, configuredRedirect)"
      by blast
    from generateFormHtml_page [OF this style] show ?thesis
      by (auto simp: connected redirect_slot_def)
  qed
  show ?thesis
    unfolding Let_def
    using page generateFormHtml_throws [of ctx L] by blast
qed

text \<open>
  A redirect is configured, and a form node, or a wait node that resumes on a form, is
  connected: the whole page, with nothing between the third and the fourth piece of static
  text and with \<^verbatim>\<open>true\<close> after it.
\<close>

theorem form_connected_page_witness:
  \<open>respondWithOptions (options (getNodeParameters
        (redirect_ctx [\<lparr>node_type = ''n8n-nodes-base.form'', parameters = None\<rparr>])))
     = Some (Some \<lparr>respondWith = ''redirect'', formSubmittedText = None,
                    redirectUrl = Some ''https://example.com''\<rparr>)
   \<and> (\<exists>shown after.
         generateFormHtml example_libs
           (redirect_ctx [\<lparr>node_type = ''n8n-nodes-base.form'', parameters = None\<rparr>]) =
         Inr (template_0 @ template_1 @ submitted_content_slot shown
            @ template_2 @ template_3 @ ''true'' @ template_4 @ after))
   \<and> (\<exists>shown after.
         generateFormHtml example_libs
           (redirect_ctx [\<lparr>node_type = ''n8n-nodes-base.wait'',
                           parameters = Some [''resume'' \<mapsto> JStr ''form'']\<rparr>]) =
         Inr (template_0 @ template_1 @ submitted_content_slot shown
            @ template_2 @ template_3 @ ''true'' @ template_4 @ after))
   \<and> generateFormHtml example_libs
         (redirect_ctx [\<lparr>node_type = ''n8n-nodes-base.form'', parameters = None\<rparr>]) =
       Inr (template_0
          @ template_1 @ ''<p id='submitted-content'>
              '' @ ''Your response has been recorded'' @ ''
            </p>''
          @ template_2
          @ template_3 @ ''true''
          @ template_4 @ parameter_slot example_libs ''data'' (Some ''{}'')
          @ template_5 @ parameter_slot example_libs ''schema'' (Some example_schema_text)
          @ template_6 @ parameter_slot example_libs ''uischema'' (Some ''{}'')
          @ template_7 @ parameter_slot example_libs ''config'' (Some ''{}'')
          @ template_8 @ template_9 @ template_10 @ template_11 @ template_12)\<close>
proof -
  let ?form = "\<lparr>node_type = ''n8n-nodes-base.form'', parameters = None\<rparr>"
  let ?wait = "\<lparr>node_type = ''n8n-nodes-base.wait'',
                parameters = Some [''resume'' \<mapsto> JStr ''form'']\<rparr>"
  have nodes: "childNodes (redirect_ctx ns) = ns" for ns
    by (simp add: redirect_ctx_def example_ctx_def)
  have form: "\<exists>n \<in> set (childNodes (redirect_ctx [?form])).
                node_type n = FORM_NODE_TYPE example_libs
                \<or> (node_type n = WAIT_NODE_TYPE example_libs
                    \<and> (\<exists>p. parameters n = Some p \<and> p ''resume'' = Some (JStr ''form'')))"
    by (simp add: nodes example_libs_fields)
  have wait: "\<exists>n \<in> set (childNodes (redirect_ctx [?wait])).
                node_type n = FORM_NODE_TYPE example_libs
                \<or> (node_type n = WAIT_NODE_TYPE example_libs
                    \<and> (\<exists>p. parameters n = Some p \<and> p ''resume'' = Some (JStr ''form'')))"
    by (simp add: nodes example_libs_fields)
  have configured: "respondWithOptions (options (getNodeParameters (redirect_ctx ns)))
     = Some (Some \<lparr>respondWith = ''redirect'', formSubmittedText = None,
                    redirectUrl = Some ''https://example.com''\<rparr>)" for ns
    by (simp add: redirect_ctx_def example_ctx_def)
  have style: "falsy (customStyle (options (getNodeParameters (redirect_ctx ns))))" for ns
    by (simp add: redirect_ctx_def example_ctx_def example_options_def falsy_def)
  have css: "custom_css_slot example_libs (redirect_ctx ns) = []" for ns
    by (simp add: custom_css_slot_def redirect_ctx_def example_ctx_def example_options_def
          example_libs_fields falsy_def)
  have with_form: "\<exists>shown after.
         generateFormHtml example_libs (redirect_ctx [?form]) =
         Inr (template_0 @ template_1 @ submitted_content_slot shown
            @ template_2 @ template_3 @ ''true'' @ template_4 @ after)"
    using form_connected_page [OF form]
    by (simp add: Let_def configured style css)
  have with_wait: "\<exists>shown after.
         generateFormHtml example_libs (redirect_ctx [?wait]) =
         Inr (template_0 @ template_1 @ submitted_content_slot shown
            @ template_2 @ template_3 @ ''true'' @ template_4 @ after)"
    using form_connected_page [OF wait]
    by (simp add: Let_def configured style css)
  have whole: \<open>generateFormHtml example_libs (redirect_ctx [?form]) =
       Inr (template_0
          @ template_1 @ ''<p id='submitted-content'>
              '' @ ''Your response has been recorded'' @ ''
            </p>''
          @ template_2
          @ template_3 @ ''true''
          @ template_4 @ parameter_slot example_libs ''data'' (Some ''{}'')
          @ template_5 @ parameter_slot example_libs ''schema'' (Some example_schema_text)
          @ template_6 @ parameter_slot example_libs ''uischema'' (Some ''{}'')
          @ template_7 @ parameter_slot example_libs ''config'' (Some ''{}'')
          @ template_8 @ template_9 @ template_10 @ template_11 @ template_12)\<close>
    by (simp add: page_defs option_slot_def falsy_def isFormConnected_def getChildNodes_def
          redirect_ctx_def example_ctx_def example_parameters_def example_options_def
          example_libs_fields)
  from configured [of "[?form]"] with_form with_wait whole show ?thesis
    by (intro conjI)
qed

subsection \<open>C10: formQueryParameters\<close>

text \<open>
  C10. Whenever the handler returns workflow data, it is one record that has the key
  \<^verbatim>\<open>formQueryParameters\<close> if and only if the query of the request is present and has at
  least one key; then the field holds the query. When the query is absent or empty the
  record has the keys \<^verbatim>\<open>data\<close>, \<^verbatim>\<open>event\<close>, \<^verbatim>\<open>submittedAt\<close> and \<^verbatim>\<open>formMode\<close>
  only.
\<close>

theorem formQueryParameters_present_iff:
  assumes "webhook L ctx = WorkflowData st wd"
  shows "\<exists>record. wd = [[record]]
      \<and> (''formQueryParameters'' \<in> set (object_keys record)
           \<longleftrightarrow> (\<exists>q. query (getRequestObject ctx) = Some q \<and> q \<noteq> []))
      \<and> (\<forall>q. query (getRequestObject ctx) = Some q \<and> q \<noteq> []
             \<longrightarrow> member record ''formQueryParameters'' = JObj q)
      \<and> (query (getRequestObject ctx) = None \<or> query (getRequestObject ctx) = Some []
             \<longrightarrow> object_keys record = [''data'', ''event'', ''submittedAt'', ''formMode''])"
proof -
  from webhook_emits [OF assms] obtain d e where wd: "wd = [returnData L ctx d e]" by blast
  show ?thesis
  proof (cases "query (getRequestObject ctx)")
    case None
    then show ?thesis by (simp add: wd returnData_shape object_keys_def member_def)
  next
    case (Some q)
    then show ?thesis
      by (cases "q = []") (simp_all add: wd returnData_shape object_keys_def member_def)
  qed
qed

text \<open>A query with one key, the empty query and no query.\<close>

theorem formQueryParameters_present_iff_witness:
  \<open>(\<exists>record. webhook example_libs
                   (post_ctx example_options ''{"data":{"foo":1}}'' (Some [(''source'', JStr ''mail'')]))
                 = WorkflowData 200 [[record]]
        \<and> object_keys record
            = [''data'', ''event'', ''submittedAt'', ''formMode'', ''formQueryParameters'']
        \<and> member record ''formQueryParameters'' = JObj [(''source'', JStr ''mail'')])
   \<and> (\<exists>record. webhook example_libs (post_ctx example_options ''{"data":{"foo":1}}'' (Some []))
                 = WorkflowData 200 [[record]]
        \<and> object_keys record = [''data'', ''event'', ''submittedAt'', ''formMode''])
   \<and> (\<exists>record. webhook example_libs (post_ctx example_options ''{"data":{"foo":1}}'' None)
                 = WorkflowData 200 [[record]]
        \<and> object_keys record = [''data'', ''event'', ''submittedAt'', ''formMode''])\<close>
proof -
  have same: "(post_ctx opts b q)\<lparr>getMode := ''manual''\<rparr> = post_ctx opts b q" for opts b q
    by (simp add: post_ctx_def example_ctx_def)
  have emitted: \<open>webhook example_libs (post_ctx example_options ''{"data":{"foo":1}}'' q)
      = WorkflowData 200
          [returnData example_libs (post_ctx example_options ''{"data":{"foo":1}}'' q)
             (JObj [(''foo'', JNum 1), (''bar'', JStr ''baz'')]) JUndefined]\<close> for q
    using example_submission [where opts = example_options and q = q and m = "''manual''"]
    by (simp add: same example_options_def)
  have shape: "object_keys r
                 = [''data'', ''event'', ''submittedAt'', ''formMode'', ''formQueryParameters'']"
    if "[returnData L ctx d e] = [[r]]" "query (getRequestObject ctx) = Some q" "q \<noteq> []"
    for L ctx d e r q
    using that by (auto simp: returnData_shape object_keys_def)
  from formQueryParameters_present_iff [OF emitted [of "Some [(''source'', JStr ''mail'')]"]]
  have first: \<open>\<exists>record. webhook example_libs
                   (post_ctx example_options ''{"data":{"foo":1}}'' (Some [(''source'', JStr ''mail'')]))
                 = WorkflowData 200 [[record]]
        \<and> object_keys record
            = [''data'', ''event'', ''submittedAt'', ''formMode'', ''formQueryParameters'']
        \<and> member record ''formQueryParameters'' = JObj [(''source'', JStr ''mail'')]\<close>
    using emitted [of "Some [(''source'', JStr ''mail'')]"] shape
    by (auto simp: post_ctx_fields example_request_def)
  from formQueryParameters_present_iff [OF emitted [of "Some []"]]
  have second: \<open>\<exists>record. webhook example_libs (post_ctx example_options ''{"data":{"foo":1}}'' (Some []))
                 = WorkflowData 200 [[record]]
        \<and> object_keys record = [''data'', ''event'', ''submittedAt'', ''formMode'']\<close>
    using emitted [of "Some []"] by (auto simp: post_ctx_fields example_request_def)
  from formQueryParameters_present_iff [OF emitted [of None]]
  have third: \<open>\<exists>record. webhook example_libs (post_ctx example_options ''{"data":{"foo":1}}'' None)
                 = WorkflowData 200 [[record]]
        \<and> object_keys record = [''data'', ''event'', ''submittedAt'', ''formMode'']\<close>
    using emitted [of None] by (auto simp: post_ctx_fields example_request_def)
  from first second third show ?thesis by simp
qed

end
